theory Spec2Isabelle
  imports Main "HOL-Library.Extended_Nat" "HOL-Library.Multiset"
begin

section \<open>Values of the host language\<close>

text \<open>
  A string of the program is a sequence of UTF-16 code units; the model writes it as a
  list of code-unit numbers. \<open>js\<close> turns a literal of ASCII characters into such a list.
\<close>

type_synonym jstring = "nat list"

definition js :: "string \<Rightarrow> jstring" where
  "js s = map of_char s"

text \<open>
  A number of the program is an IEEE double. \<open>Fin q\<close> stands for the double nearest to
  the rational \<open>q\<close>: the model computes with the exact value and leaves rounding and
  overflow out. The three special values are kept, since the code tests for NaN.
\<close>

datatype jsnum = Fin rat | PosInf | NegInf | NaN

fun isNaN :: "jsnum \<Rightarrow> bool" where
  "isNaN NaN = True"
| "isNaN _ = False"

text \<open>The comparisons \<open><\<close>, \<open>>\<close>, \<open>>=\<close> and \<open>===\<close> on numbers; each is false on NaN.\<close>

fun num_lt :: "jsnum \<Rightarrow> jsnum \<Rightarrow> bool" where
  "num_lt NaN _ = False"
| "num_lt _ NaN = False"
| "num_lt (Fin a) (Fin b) = (a < b)"
| "num_lt (Fin a) PosInf = True"
| "num_lt NegInf (Fin b) = True"
| "num_lt NegInf PosInf = True"
| "num_lt _ _ = False"

fun num_eq :: "jsnum \<Rightarrow> jsnum \<Rightarrow> bool" where
  "num_eq NaN _ = False"
| "num_eq _ NaN = False"
| "num_eq a b = (a = b)"

definition num_gt :: "jsnum \<Rightarrow> jsnum \<Rightarrow> bool" where
  "num_gt a b = num_lt b a"

definition num_ge :: "jsnum \<Rightarrow> jsnum \<Rightarrow> bool" where
  "num_ge a b = (num_lt b a \<or> num_eq a b)"

text \<open>\<open>Number.isInteger\<close>.\<close>

fun isInteger :: "jsnum \<Rightarrow> bool" where
  "isInteger (Fin q) = (q = of_int \<lfloor>q\<rfloor>)"
| "isInteger _ = False"

text \<open>
  Three built-ins are defined by the host and not by the repository: the Unicode case
  mappings of \<open>String.prototype.toUpperCase\<close> and \<open>toLowerCase\<close>, and the
  number-to-string conversion that \<open>String(n)\<close> and template literals apply. The model
  takes them as a parameter \<open>h\<close>, and the theorems below are stated for every \<open>h\<close>;
  where a theorem needs a property of a built-in, it names the property as a premise.
  \<open>ascii_host\<close> is the instance used to run the model on texts of ASCII characters and
  on natural numbers, where it agrees with the host.
\<close>

record host =
  toUpperCase :: "jstring \<Rightarrow> jstring"
  toLowerCase :: "jstring \<Rightarrow> jstring"
  numToString :: "jsnum \<Rightarrow> jstring"

definition upper_unit :: "nat \<Rightarrow> nat" where
  "upper_unit c = (if 97 \<le> c \<and> c \<le> 122 then c - 32 else c)"

definition lower_unit :: "nat \<Rightarrow> nat" where
  "lower_unit c = (if 65 \<le> c \<and> c \<le> 90 then c + 32 else c)"

fun digits_of :: "nat \<Rightarrow> nat \<Rightarrow> jstring" where
  "digits_of 0 n = []"
| "digits_of (Suc fuel) n =
     (if n < 10 then [48 + n] else digits_of fuel (n div 10) @ [48 + n mod 10])"

definition nat_str :: "nat \<Rightarrow> jstring" where
  "nat_str n = digits_of (Suc n) n"

fun ascii_numToString :: "jsnum \<Rightarrow> jstring" where
  "ascii_numToString NaN = js ''NaN''"
| "ascii_numToString PosInf = js ''Infinity''"
| "ascii_numToString NegInf = js ''-Infinity''"
| "ascii_numToString (Fin q) =
     (if q < 0 then js ''-'' @ nat_str (nat \<lfloor>- q\<rfloor>) else nat_str (nat \<lfloor>q\<rfloor>))"

definition ascii_host :: host where
  "ascii_host = \<lparr> toUpperCase = map upper_unit, toLowerCase = map lower_unit,
                   numToString = ascii_numToString \<rparr>"

definition num_of_nat :: "nat \<Rightarrow> jsnum" where
  "num_of_nat n = Fin (of_nat n)"

subsection \<open>White space and \<open>parseFloat\<close>\<close>

text \<open>
  The code units that \<open>\s\<close>, \<open>trim\<close> and the leading-blank skip of \<open>parseFloat\<close> treat
  as white space: TAB, LF, VT, FF, CR, SP, NBSP, U+1680, U+2000 to U+200A, U+2028,
  U+2029, U+202F, U+205F, U+3000 and U+FEFF.
\<close>

definition isWhiteSpace :: "nat \<Rightarrow> bool" where
  "isWhiteSpace c =
     (c \<in> set [9, 10, 11, 12, 13, 32, 160, 5760, 8232, 8233, 8239, 8287, 12288, 65279]
      \<or> (8192 \<le> c \<and> c \<le> 8202))"

definition isDigit :: "nat \<Rightarrow> bool" where
  "isDigit c = (48 \<le> c \<and> c \<le> 57)"

definition trim :: "jstring \<Rightarrow> jstring" where
  "trim s = rev (dropWhile isWhiteSpace (rev (dropWhile isWhiteSpace s)))"

definition digits_val :: "jstring \<Rightarrow> nat" where
  "digits_val ds = foldl (\<lambda>a c. 10 * a + (c - 48)) 0 ds"

text \<open>
  The exponent part of a decimal literal: \<open>e\<close> or \<open>E\<close>, an optional sign and at least
  one digit. Without the digits there is no exponent part and the literal ends before
  the \<open>e\<close>.
\<close>

definition exponent_of :: "jstring \<Rightarrow> int" where
  "exponent_of r =
     (case r of
        [] \<Rightarrow> 0
      | c # r1 \<Rightarrow>
          if c = 101 \<or> c = 69 then
            (case r1 of
               [] \<Rightarrow> 0
             | d # r2 \<Rightarrow>
                 if d = 45 then
                   (if takeWhile isDigit r2 = [] then 0 else - int (digits_val (takeWhile isDigit r2)))
                 else if d = 43 then int (digits_val (takeWhile isDigit r2))
                 else int (digits_val (takeWhile isDigit r1)))
          else 0)"

definition scale10 :: "rat \<Rightarrow> int \<Rightarrow> rat" where
  "scale10 q e = (if 0 \<le> e then q * 10 ^ nat e else q / 10 ^ nat (- e))"

text \<open>
  \<open>parseFloat\<close> skips leading white space and reads the longest prefix that is a
  decimal literal: an optional sign, then \<open>Infinity\<close> or digits with an optional
  fraction and an optional exponent part. With no such prefix the result is NaN.
\<close>

definition parseFloat :: "jstring \<Rightarrow> jsnum" where
  "parseFloat s =
     (let t = dropWhile isWhiteSpace s;
          neg = (t \<noteq> [] \<and> hd t = 45);
          u = (if t \<noteq> [] \<and> (hd t = 45 \<or> hd t = 43) then tl t else t);
          ip = takeWhile isDigit u;
          r1 = dropWhile isDigit u;
          dot = (r1 \<noteq> [] \<and> hd r1 = 46);
          fp = (if dot then takeWhile isDigit (tl r1) else []);
          r2 = (if dot then dropWhile isDigit (tl r1) else r1);
          m = scale10 (of_nat (digits_val (ip @ fp)) / 10 ^ length fp) (exponent_of r2)
      in if take 8 u = js ''Infinity'' then (if neg then NegInf else PosInf)
         else if ip = [] \<and> fp = [] then NaN
         else Fin (if neg then - m else m))"

section \<open>The data model (types/quote.ts)\<close>

datatype RiskLevel = Low | Medium | High | Critical

text \<open>
  A cell of a raw row is what the codec hands over: a string, a number, or nothing.
  A raw row is an object; the model keeps its own properties as an association list.
\<close>

datatype cell = CUndefined | CNull | CStr jstring | CNum jsnum

type_synonym rawrow = "(jstring \<times> cell) list"

text \<open>
  \<open>quantity\<close> and \<open>unitPrice\<close> have type \<open>number | null\<close>: \<open>None\<close> is \<open>null\<close>.
\<close>

record ParsedRow =
  rowNumber :: nat
  partNumber :: jstring
  quantity :: "jsnum option"
  description :: jstring
  unitPrice :: "jsnum option"
  unitOfMeasure :: jstring
  notes' :: jstring
  rawData :: rawrow

text \<open>The values a field of a row, or an \<open>unknown\<close> slot of a remediation, can hold.\<close>

datatype jsval = VNull | VStr jstring | VNum jsnum

datatype field = Quantity | UnitPrice | Description | Notes | PartNumber | UnitOfMeasure

fun field_name :: "field \<Rightarrow> jstring" where
  "field_name Quantity = js ''quantity''"
| "field_name UnitPrice = js ''unitPrice''"
| "field_name Description = js ''description''"
| "field_name Notes = js ''notes''"
| "field_name PartNumber = js ''partNumber''"
| "field_name UnitOfMeasure = js ''unitOfMeasure''"

record RowRemediation =
  rem_rowNumber :: nat
  rem_field :: field
  oldValue :: jsval
  newValue :: jsval
  reason :: jstring


text \<open>
  A risk finding. Of the fields of \<open>RiskFlag\<close> the model keeps the type, the level,
  the title, the affected rows and the extracted value. The \<open>id\<close> (which embeds the
  clock and, for one detector, a random number), the description and the recommendation
  are display texts that no code reads back; they are left out.
\<close>

datatype RiskType = Incoterms | LiquidatedDamages | UomConflict | Duplicate | MissingData | General

record RiskFlag =
  rtype :: RiskType
  level :: RiskLevel
  title :: jstring
  affectedRows :: "nat list option"
  extractedValue :: "jstring option"

record ColumnMapping =
  cm_partNumber :: "jstring option"
  cm_quantity :: "jstring option"
  cm_description :: "jstring option"
  cm_unitPrice :: "jstring option"
  cm_unitOfMeasure :: "jstring option"
  cm_notes :: "jstring option"
  cm_terms :: "jstring option"
  headerRow :: nat

section \<open>Finding and applying quantity fixes (lib/excelExport.ts)\<close>

text \<open>An entry of \<open>fixes\<close> and of \<open>appliedRemediations\<close>: \<open>{rowNumber, quantity, reason}\<close>.\<close>

record qfix =
  fix_rowNumber :: nat
  fix_quantity :: jsnum
  fix_reason :: jstring

fun val_of_num :: "jsnum option \<Rightarrow> jsval" where
  "val_of_num None = VNull"
| "val_of_num (Some n) = VNum n"

text \<open>
  \<open>row.quantity === null || row.quantity === undefined || row.quantity === 0\<close>; the
  type of \<open>quantity\<close> has no \<open>undefined\<close>.
\<close>

definition findMissingQuantities :: "ParsedRow list \<Rightarrow> nat list" where
  "findMissingQuantities rows =
     map rowNumber
       (filter (\<lambda>row. case quantity row of None \<Rightarrow> True | Some n \<Rightarrow> num_eq n (Fin 0)) rows)"

text \<open>
  \<open>applyQuantityFixes\<close> maps over the rows; the callback pushes a remediation for each
  row that has a fix, so the remediations come out in row order.
\<close>

definition applyQuantityFixes ::
  "ParsedRow list \<Rightarrow> qfix list \<Rightarrow> ParsedRow list \<times> RowRemediation list" where
  "applyQuantityFixes rows fixes =
     (map (\<lambda>row. case find (\<lambda>f. fix_rowNumber f = rowNumber row) fixes of
                   Some f \<Rightarrow> row\<lparr>quantity := Some (fix_quantity f)\<rparr>
                 | None \<Rightarrow> row) rows,
      List.map_filter
        (\<lambda>row. case find (\<lambda>f. fix_rowNumber f = rowNumber row) fixes of
                  Some f \<Rightarrow> Some \<lparr> rem_rowNumber = rowNumber row, rem_field = Quantity,
                                    oldValue = val_of_num (quantity row),
                                    newValue = VNum (fix_quantity f), reason = fix_reason f \<rparr>
                | None \<Rightarrow> None) rows)"

section \<open>The state of one request and the store of corrected files\<close>

text \<open>
  Arrays are mutable objects of the program, and the row operations differ in whether
  they build a new array or write into the one they were given. The model therefore
  keeps arrays in a heap: \<open>arrays s a\<close> is the content of the array at address \<open>a\<close>,
  and \<open>nextAddr s\<close> is the first address not yet in use. Row objects are never written
  after they are built (every change spreads the row into a new object), so an array
  holds row values.

  \<open>currentRows\<close> is the variable of the request handler, holding the address of the
  array it was last assigned; at the start of a request that is the array decoded from
  the request body. \<open>correctedFilesStore\<close> is the module's map of stored
  downloads in insertion order; an entry keeps the address of the array it was given,
  as the source keeps the reference. The token, the file name, the column mapping and
  the expiry of an entry are left out.
\<close>

type_synonym addr = nat

record stored =
  stored_rows :: addr
  remediations :: "RowRemediation list"

record state =
  arrays :: "addr \<Rightarrow> ParsedRow list"
  nextAddr :: addr
  currentRows :: addr
  appliedRemediations :: "qfix list"
  correctedFilesStore :: "stored list"

definition rows_of :: "state \<Rightarrow> ParsedRow list" where
  "rows_of s = arrays s (currentRows s)"

text \<open>A new array (the result of \<open>map\<close> or \<open>filter\<close>) assigned to \<open>currentRows\<close>.\<close>

definition assign_new_array :: "ParsedRow list \<Rightarrow> state \<Rightarrow> state" where
  "assign_new_array xs s =
     s\<lparr> arrays := (arrays s)(nextAddr s := xs), currentRows := nextAddr s,
        nextAddr := Suc (nextAddr s) \<rparr>"

definition storeFixedRows :: "addr \<Rightarrow> RowRemediation list \<Rightarrow> state \<Rightarrow> state" where
  "storeFixedRows rows rems s =
     s\<lparr> correctedFilesStore :=
          correctedFilesStore s @ [\<lparr> stored_rows = rows, remediations = rems \<rparr>] \<rparr>"

section \<open>The four row operations (the tools of the chat route)\<close>

fun String_val :: "host \<Rightarrow> jsval \<Rightarrow> jstring" where
  "String_val h VNull = js ''null''"
| "String_val h (VStr s) = s"
| "String_val h (VNum n) = numToString h n"

fun get_field :: "field \<Rightarrow> ParsedRow \<Rightarrow> jsval" where
  "get_field Quantity row = val_of_num (quantity row)"
| "get_field UnitPrice row = val_of_num (unitPrice row)"
| "get_field Description row = VStr (description row)"
| "get_field Notes row = VStr (notes' row)"
| "get_field PartNumber row = VStr (partNumber row)"
| "get_field UnitOfMeasure row = VStr (unitOfMeasure row)"

subsection \<open>fix_missing_quantities\<close>

record fix_result =
  fix_success :: bool
  fixedCount :: nat
  fix_affectedRows :: "nat list"
  fix_message :: jstring

definition fix_missing_quantities ::
  "host \<Rightarrow> jsnum \<Rightarrow> nat list option \<Rightarrow> state \<Rightarrow> fix_result \<times> state" where
  "fix_missing_quantities h defaultQuantity affectedRowNumbers s =
     (let missingRows = (case affectedRowNumbers of
                           Some given \<Rightarrow> given
                         | None \<Rightarrow> findMissingQuantities (rows_of s));
          fixes = map (\<lambda>rowNum. \<lparr> fix_rowNumber = rowNum, fix_quantity = defaultQuantity,
                                  fix_reason = js ''Auto-fixed: Set missing quantity to ''
                                               @ numToString h defaultQuantity \<rparr>) missingRows;
          (fixedRows, rems) = applyQuantityFixes (rows_of s) fixes;
          s1 = assign_new_array fixedRows s;
          s2 = s1\<lparr> appliedRemediations := appliedRemediations s1 @ fixes \<rparr>;
          s3 = storeFixedRows (currentRows s2)
                 (map (\<lambda>f. \<lparr> rem_rowNumber = fix_rowNumber f, rem_field = Quantity,
                              oldValue = VNull, newValue = VNum (fix_quantity f),
                              reason = fix_reason f \<rparr>) fixes) s2
      in (\<lparr> fix_success = True, fixedCount = length rems, fix_affectedRows = missingRows,
            fix_message = js ''Fixed '' @ numToString h (num_of_nat (length rems))
                          @ js '' rows with missing quantities by setting them to ''
                          @ numToString h defaultQuantity @ js ''.'' \<rparr>, s3))"

subsection \<open>update_cell_value\<close>

datatype newval = NewStr jstring | NewNum jsnum

fun val_of_new :: "newval \<Rightarrow> jsval" where
  "val_of_new (NewStr s) = VStr s"
| "val_of_new (NewNum n) = VNum n"

text \<open>\<open>typeof newValue === 'number' ? newValue : parseFloat(String(newValue))\<close>\<close>

fun number_of_new :: "newval \<Rightarrow> jsnum" where
  "number_of_new (NewNum n) = n"
| "number_of_new (NewStr s) = parseFloat s"

text \<open>
  \<open>{...row, [field]: v}\<close> for a number and for a string. The source picks the first
  for \<open>quantity\<close> and \<open>unitPrice\<close> and the second for the other four fields; the
  remaining equations are never reached.
\<close>

fun set_number :: "field \<Rightarrow> jsnum option \<Rightarrow> ParsedRow \<Rightarrow> ParsedRow" where
  "set_number Quantity v row = row\<lparr>quantity := v\<rparr>"
| "set_number UnitPrice v row = row\<lparr>unitPrice := v\<rparr>"
| "set_number _ v row = row"

fun set_string :: "field \<Rightarrow> jstring \<Rightarrow> ParsedRow \<Rightarrow> ParsedRow" where
  "set_string Description v row = row\<lparr>description := v\<rparr>"
| "set_string Notes v row = row\<lparr>notes' := v\<rparr>"
| "set_string PartNumber v row = row\<lparr>partNumber := v\<rparr>"
| "set_string UnitOfMeasure v row = row\<lparr>unitOfMeasure := v\<rparr>"
| "set_string _ v row = row"

text \<open>\<open>findIndex\<close>: the first index whose element passes the test; \<open>None\<close> is \<open>-1\<close>.\<close>

fun findIndex :: "('a \<Rightarrow> bool) \<Rightarrow> 'a list \<Rightarrow> nat option" where
  "findIndex P [] = None"
| "findIndex P (x # xs) = (if P x then Some 0 else map_option Suc (findIndex P xs))"

text \<open>
  The result is \<open>{success: false, message}\<close> when the row is not found, and
  \<open>{success: true, rowNumber, field, oldValue, newValue, message, ...}\<close> otherwise.
\<close>

datatype update_result =
  UpdateFailed jstring
| Updated nat field jsval newval jstring

fun update_success :: "update_result \<Rightarrow> bool" where
  "update_success (UpdateFailed m) = False"
| "update_success (Updated rn f ov nv m) = True"

fun update_message :: "update_result \<Rightarrow> jstring" where
  "update_message (UpdateFailed m) = m"
| "update_message (Updated rn f ov nv m) = m"

definition update_cell_value ::
  "host \<Rightarrow> nat \<Rightarrow> field \<Rightarrow> newval \<Rightarrow> state \<Rightarrow> update_result \<times> state" where
  "update_cell_value h rn fld nv s =
     (case findIndex (\<lambda>r. rowNumber r = rn) (rows_of s) of
        None \<Rightarrow>
          (UpdateFailed (js ''Row '' @ numToString h (num_of_nat rn)
                         @ js '' not found in the data.''), s)
      | Some rowIndex \<Rightarrow>
          (let old = get_field fld (rows_of s ! rowIndex);
               row' = (if fld = Quantity \<or> fld = UnitPrice
                       then set_number fld (Some (number_of_new nv)) (rows_of s ! rowIndex)
                       else set_string fld (String_val h (val_of_new nv)) (rows_of s ! rowIndex));
               s1 = s\<lparr> arrays := (arrays s)(currentRows s := (rows_of s)[rowIndex := row']) \<rparr>;
               why = js ''Updated '' @ field_name fld @ js '' from '' @ String_val h old
                     @ js '' to '' @ String_val h (val_of_new nv);
               s2 = s1\<lparr> appliedRemediations := appliedRemediations s1 @
                          [\<lparr> fix_rowNumber = rn,
                             fix_quantity = (if fld = Quantity then number_of_new nv else Fin 0),
                             fix_reason = why \<rparr>] \<rparr>;
               s3 = storeFixedRows (currentRows s2)
                      [\<lparr> rem_rowNumber = rn, rem_field = fld, oldValue = old,
                         newValue = val_of_new nv, reason = why \<rparr>] s2
           in (Updated rn fld old nv
                 (js ''Updated '' @ field_name fld @ js '' in row '' @ numToString h (num_of_nat rn)
                  @ js '' from '' @ String_val h old @ js '' to '' @ String_val h (val_of_new nv)
                  @ js ''.''), s3)))"

subsection \<open>delete_rows\<close>

record delete_result =
  del_success :: bool
  deletedCount :: nat
  del_rowNumbers :: "nat list"
  del_message :: jstring

definition delete_rows :: "host \<Rightarrow> nat list \<Rightarrow> state \<Rightarrow> delete_result \<times> state" where
  "delete_rows h rowNumbers s =
     (let originalCount = length (rows_of s);
          s1 = assign_new_array (filter (\<lambda>r. rowNumber r \<notin> set rowNumbers) (rows_of s)) s;
          deleted = originalCount - length (rows_of s1);
          s2 = s1\<lparr> appliedRemediations := appliedRemediations s1 @
                     map (\<lambda>rowNum. \<lparr> fix_rowNumber = rowNum, fix_quantity = Fin 0,
                                      fix_reason = js ''Row deleted by user request'' \<rparr>)
                         rowNumbers \<rparr>;
          s3 = storeFixedRows (currentRows s2)
                 (map (\<lambda>rowNum. \<lparr> rem_rowNumber = rowNum, rem_field = Quantity,
                                   oldValue = VStr (js ''ROW''), newValue = VStr (js ''DELETED''),
                                   reason = js ''Row deleted by user request'' \<rparr>) rowNumbers) s2
      in (\<lparr> del_success = True, deletedCount = deleted, del_rowNumbers = rowNumbers,
            del_message = js ''Deleted '' @ numToString h (num_of_nat deleted)
                          @ js '' rows from the data.'' \<rparr>, s3))"

subsection \<open>clear_column\<close>

record clear_result =
  clr_success :: bool
  clr_field :: field
  affectedCount :: nat
  clr_message :: jstring

text \<open>\<open>row[field] !== null && row[field] !== ''\<close>\<close>

definition holds_data :: "field \<Rightarrow> ParsedRow \<Rightarrow> bool" where
  "holds_data fld row = (get_field fld row \<noteq> VNull \<and> get_field fld row \<noteq> VStr [])"

definition cleared :: "field \<Rightarrow> ParsedRow \<Rightarrow> ParsedRow" where
  "cleared fld row =
     (if fld = Quantity \<or> fld = UnitPrice then set_number fld None row
      else set_string fld [] row)"

definition clear_column :: "host \<Rightarrow> field \<Rightarrow> state \<Rightarrow> clear_result \<times> state" where
  "clear_column h fld s =
     (let affected = length (filter (holds_data fld) (rows_of s));
          s1 = assign_new_array
                 (map (\<lambda>row. if holds_data fld row then cleared fld row else row) (rows_of s)) s;
          s2 = (if affected > 0
                then s1\<lparr> appliedRemediations := appliedRemediations s1 @
                           [\<lparr> fix_rowNumber = 0, fix_quantity = Fin 0,
                              fix_reason = js ''Cleared column: '' @ field_name fld \<rparr>] \<rparr>
                else s1);
          s3 = storeFixedRows (currentRows s2)
                 [\<lparr> rem_rowNumber = 0, rem_field = fld, oldValue = VStr (js ''ALL''),
                    newValue = VNull, reason = js ''Cleared column: '' @ field_name fld \<rparr>] s2
      in (\<lparr> clr_success = True, clr_field = fld, affectedCount = affected,
            clr_message = js ''Cleared data in column '' @ [39] @ field_name fld @ [39]
                          @ js '' for '' @ numToString h (num_of_nat affected) @ js '' rows.'' \<rparr>,
          s3))"

section \<open>Regular expressions\<close>

text \<open>
  The detectors search the text with regular expressions. The model gives the patterns
  as terms of the datatype \<open>re\<close> and matches them the way the host does, by
  backtracking: \<open>run r st\<close> lists the states in which a match of \<open>r\<close> started in \<open>st\<close>
  can end, in the order in which backtracking tries them, so the head of the list is
  the match the host reports. A state holds the code unit before the position (for
  \<open>\b\<close>), the rest of the text and the text of the capture group. \<open>Grp\<close> marks the one
  group of a pattern whose text the code reads; other parentheses only group.
\<close>

datatype re =
    Sym "nat \<Rightarrow> bool"
  | Eps
  | Bnd
  | Seq re re
  | Alt re re
  | Star re
  | Grp re

type_synonym mstate = "nat option \<times> jstring \<times> jstring option"

definition rest :: "mstate \<Rightarrow> jstring" where
  "rest st = fst (snd st)"

text \<open>\<open>\b\<close> holds where exactly one of the two neighbours is a word character.\<close>

definition isWordChar :: "nat \<Rightarrow> bool" where
  "isWordChar c = ((97 \<le> c \<and> c \<le> 122) \<or> (65 \<le> c \<and> c \<le> 90) \<or> isDigit c \<or> c = 95)"

definition at_boundary :: "nat option \<Rightarrow> jstring \<Rightarrow> bool" where
  "at_boundary pv s =
     ((case pv of None \<Rightarrow> False | Some c \<Rightarrow> isWordChar c)
      \<noteq> (case s of [] \<Rightarrow> False | c # cs \<Rightarrow> isWordChar c))"

text \<open>
  \<open>r*\<close> is greedy: it first tries one more round of \<open>r\<close>, and gives up a round that
  consumed nothing; only then does it try to stop. Every round kept consumes at least
  one code unit, so the length of the rest bounds the number of rounds.
\<close>

fun star_iter :: "(mstate \<Rightarrow> mstate list) \<Rightarrow> nat \<Rightarrow> mstate \<Rightarrow> mstate list" where
  "star_iter f 0 st = [st]"
| "star_iter f (Suc n) st =
     concat (map (star_iter f n) (filter (\<lambda>st'. length (rest st') < length (rest st)) (f st)))
     @ [st]"

primrec run :: "re \<Rightarrow> mstate \<Rightarrow> mstate list" where
  "run (Sym p) st =
     (case st of (pv, s, c) \<Rightarrow>
        (case s of [] \<Rightarrow> [] | x # xs \<Rightarrow> if p x then [(Some x, xs, c)] else []))"
| "run Eps st = [st]"
| "run Bnd st = (case st of (pv, s, c) \<Rightarrow> if at_boundary pv s then [st] else [])"
| "run (Seq a b) st = concat (map (run b) (run a st))"
| "run (Alt a b) st = run a st @ run b st"
| "run (Star a) st = star_iter (run a) (length (rest st)) st"
| "run (Grp a) st =
     map (\<lambda>st'. (fst st', rest st', Some (take (length (rest st) - length (rest st')) (rest st))))
         (run a st)"

text \<open>
  One attempt at a position: the first way to match there, as the matched text and the
  text of the group. A search tries the start positions from left to right and reports
  the attempt of the leftmost position that has a match.
\<close>

definition match_here :: "re \<Rightarrow> nat option \<Rightarrow> jstring \<Rightarrow> (jstring \<times> jstring option) option" where
  "match_here r pv s =
     (case run r (pv, s, None) of
        [] \<Rightarrow> None
      | st # _ \<Rightarrow> Some (take (length s - length (rest st)) s, snd (snd st)))"

fun search_from :: "re \<Rightarrow> nat option \<Rightarrow> jstring \<Rightarrow> (jstring \<times> jstring option) option" where
  "search_from r pv [] = match_here r pv []"
| "search_from r pv (x # xs) =
     (case match_here r pv (x # xs) of
        None \<Rightarrow> search_from r (Some x) xs
      | Some m \<Rightarrow> Some m)"

definition re_exec :: "re \<Rightarrow> jstring \<Rightarrow> (jstring \<times> jstring option) option" where
  "re_exec r text = search_from r None text"

definition re_test :: "re \<Rightarrow> jstring \<Rightarrow> bool" where
  "re_test r text = (re_exec r text \<noteq> None)"

text \<open>The attempt at offset \<open>k\<close> of a text.\<close>

definition match_at :: "re \<Rightarrow> jstring \<Rightarrow> nat \<Rightarrow> (jstring \<times> jstring option) option" where
  "match_at r s k = match_here r (if k = 0 then None else Some (s ! (k - 1))) (drop k s)"

text \<open>A pattern that has a match at every position.\<close>

definition total :: "re \<Rightarrow> bool" where
  "total r = (\<forall>st. run r st \<noteq> [])"

text \<open>
  \<open>r+\<close>, \<open>r?\<close>, sequences and alternatives of several patterns, a class given by its
  ASCII members, a literal matched without regard to case (flag \<open>i\<close>), \<open>\s\<close> and \<open>\d\<close>.
\<close>

definition Plus :: "re \<Rightarrow> re" where "Plus r = Seq r (Star r)"
definition Opt :: "re \<Rightarrow> re" where "Opt r = Alt r Eps"
definition seqs :: "re list \<Rightarrow> re" where "seqs rs = foldr Seq rs Eps"
definition alts :: "re list \<Rightarrow> re" where "alts rs = foldr Alt (butlast rs) (last rs)"
definition chr :: "string \<Rightarrow> re" where "chr s = Sym (\<lambda>c. c \<in> set (js s))"
definition lit_i :: "jstring \<Rightarrow> re" where
  "lit_i s = seqs (map (\<lambda>k. Sym (\<lambda>c. upper_unit c = upper_unit k)) s)"
definition ws :: re where "ws = Sym isWhiteSpace"
definition digit :: re where "digit = Sym isDigit"


text \<open>\<open>match[1]\<close> as a string: a group that took no part reads \<open>undefined\<close>.\<close>

fun group_text :: "jstring option \<Rightarrow> jstring" where
  "group_text None = js ''undefined''"
| "group_text (Some t) = t"

text \<open>\<open>String.prototype.includes\<close>\<close>

fun str_includes :: "jstring \<Rightarrow> jstring \<Rightarrow> bool" where
  "str_includes [] t = (t = [])"
| "str_includes (x # xs) t = (take (length t) (x # xs) = t \<or> str_includes xs t)"

section \<open>The risk detectors (lib/riskDetector.ts)\<close>

subsection \<open>Incoterms\<close>

text \<open>\<open>INCOTERMS_DATA\<close> (lib/schemas.ts), in the order of its entries.\<close>

definition INCOTERMS_DATA :: "(jstring \<times> RiskLevel) list" where
  "INCOTERMS_DATA =
     [(js ''EXW'', Low), (js ''FCA'', Low), (js ''FAS'', Medium), (js ''FOB'', Medium),
      (js ''CFR'', Medium), (js ''CIF'', Medium), (js ''CPT'', Medium), (js ''CIP'', High),
      (js ''DAP'', High), (js ''DPU'', High), (js ''DDP'', Critical)]"

text \<open>
  The pattern built for a code: \<open>\bCODE\s*[\-D:]?\s*([A-Za-z\s,]+)?\<close> with flags
  \<open>gi\<close>, where \<open>D\<close> stands for the en dash U+2013. The part after the code is the
  optional location. The code reads the whole first match only.
\<close>

definition locationRe :: re where
  "locationRe =
     seqs [Star ws, Opt (Sym (\<lambda>c. c = 45 \<or> c = 8211 \<or> c = 58)), Star ws,
           Opt (Plus (Sym (\<lambda>c. (65 \<le> c \<and> c \<le> 90) \<or> (97 \<le> c \<and> c \<le> 122)
                                \<or> isWhiteSpace c \<or> c = 44)))]"

definition incotermRe :: "jstring \<Rightarrow> re" where
  "incotermRe code = seqs [Bnd, lit_i code, locationRe]"

text \<open>\<open>/delivered\s+duty\s+paid/i\<close>\<close>

definition ddpPhraseRe :: re where
  "ddpPhraseRe = seqs [lit_i (js ''delivered''), Plus ws, lit_i (js ''duty''), Plus ws,
                       lit_i (js ''paid'')]"

definition incoterm_flags :: "jstring \<Rightarrow> jstring \<times> RiskLevel \<Rightarrow> RiskFlag list" where
  "incoterm_flags upperText entry =
     (case re_exec (incotermRe (fst entry)) upperText of
        None \<Rightarrow> []
      | Some m \<Rightarrow> [\<lparr> rtype = Incoterms, level = snd entry,
                      title = js ''Incoterm Detected: '' @ fst entry, affectedRows = None,
                      extractedValue = Some (trim (fst m)) \<rparr>])"

definition mentions_DDP :: "RiskFlag \<Rightarrow> bool" where
  "mentions_DDP r = (case extractedValue r of None \<Rightarrow> False | Some v \<Rightarrow> str_includes v (js ''DDP''))"

definition ddp_phrase_flag :: RiskFlag where
  "ddp_phrase_flag = \<lparr> rtype = Incoterms, level = Critical,
                        title = js ''DDP-equivalent Terms Detected'', affectedRows = None,
                        extractedValue = Some (js ''Delivered Duty Paid'') \<rparr>"

definition detectIncoterms :: "host \<Rightarrow> jstring \<Rightarrow> RiskFlag list" where
  "detectIncoterms h rawText =
     (let upperText = toUpperCase h rawText;
          risks = concat (map (incoterm_flags upperText) INCOTERMS_DATA)
      in if re_test ddpPhraseRe rawText \<and> \<not> list_ex mentions_DDP risks
         then risks @ [ddp_phrase_flag] else risks)"

subsection \<open>Liquidated damages\<close>

definition ldPatterns :: "re list" where
  "ldPatterns =
     [seqs [lit_i (js ''liquidated''), Plus ws, lit_i (js ''damages'')],
      seqs [lit_i (js ''penalty''), Plus ws, Opt (alts [lit_i (js ''for''), lit_i (js ''of'')]),
            Star ws, alts [lit_i (js ''late''), lit_i (js ''delay'')]],
      seqs [lit_i (js ''delay''), Plus ws, lit_i (js ''penalty'')],
      seqs [seqs [Plus digit, Opt (chr ''.''), Star digit], Star ws, chr ''%'', Star ws,
            alts [lit_i (js ''per''), lit_i (js ''each'')], Star ws,
            alts [lit_i (js ''day''), lit_i (js ''week'')]],
      seqs [lit_i (js ''per''), Star ws, lit_i (js ''diem''), Star ws, lit_i (js ''penalty'')],
      seqs [lit_i (js ''late''), Plus ws, lit_i (js ''delivery''), Plus ws,
            alts [lit_i (js ''penalty''), lit_i (js ''charge''), lit_i (js ''fee'')]]]"

text \<open>\<open>/(\d+\.?\d*)\s*%\s*(per|each)?\s*(day|week|month)?/i\<close>\<close>

definition percentRe :: re where
  "percentRe = seqs [Grp (seqs [Plus digit, Opt (chr ''.''), Star digit]), Star ws, chr ''%'',
                     Star ws, Opt (alts [lit_i (js ''per''), lit_i (js ''each'')]), Star ws,
                     Opt (alts [lit_i (js ''day''), lit_i (js ''week''), lit_i (js ''month'')])]"

text \<open>\<open>/(?:cap|maximum|max|up\s+to|not\s+(?:to\s+)?exceed)\s*(?:of\s*)?(\d+\.?\d*)\s*%/i\<close>\<close>

definition capRe :: re where
  "capRe = seqs [alts [lit_i (js ''cap''), lit_i (js ''maximum''), lit_i (js ''max''),
                       seqs [lit_i (js ''up''), Plus ws, lit_i (js ''to'')],
                       seqs [lit_i (js ''not''), Plus ws, Opt (seqs [lit_i (js ''to''), Plus ws]),
                             lit_i (js ''exceed'')]],
                 Star ws, Opt (seqs [lit_i (js ''of''), Star ws]),
                 Grp (seqs [Plus digit, Opt (chr ''.''), Star digit]), Star ws, chr ''%'']"

text \<open>The level that the first percentage of the text gives; \<open>High\<close> without one.\<close>

definition percent_level :: "(jstring \<times> jstring option) option \<Rightarrow> RiskLevel" where
  "percent_level percentMatch =
     (case percentMatch of
        None \<Rightarrow> High
      | Some m \<Rightarrow>
          (let percentage = parseFloat (group_text (snd m))
           in if num_ge percentage (Fin 1) then Critical
              else if num_ge percentage (Fin (1 / 2)) then High
              else Medium))"

text \<open>The finding built in the body of the loop, for the match \<open>match0\<close> of a pattern.\<close>

definition ld_flag :: "host \<Rightarrow> jstring \<Rightarrow> jstring \<Rightarrow> RiskFlag" where
  "ld_flag h rawText match0 =
     (let percentMatch = re_exec percentRe rawText;
          capMatch = re_exec capRe rawText;
          capInfo = (case capMatch of
                       None \<Rightarrow> []
                     | Some m \<Rightarrow> js '' (Capped at ''
                                 @ numToString h (parseFloat (group_text (snd m))) @ js ''%)'');
          lvl = (case capMatch of
                   None \<Rightarrow> percent_level percentMatch
                 | Some m \<Rightarrow> if num_gt (parseFloat (group_text (snd m))) (Fin 10) then Critical
                             else percent_level percentMatch)
      in \<lparr> rtype = LiquidatedDamages, level = lvl,
           title = js ''Liquidated Damages Clause Detected'' @ capInfo, affectedRows = None,
           extractedValue = Some (case percentMatch of None \<Rightarrow> match0 | Some m \<Rightarrow> fst m) \<rparr>)"

text \<open>The loop over the patterns, left at the first pattern that matches.\<close>

fun ld_loop :: "host \<Rightarrow> jstring \<Rightarrow> re list \<Rightarrow> RiskFlag list" where
  "ld_loop h rawText [] = []"
| "ld_loop h rawText (pattern # patterns) =
     (case re_exec pattern rawText of
        None \<Rightarrow> ld_loop h rawText patterns
      | Some m \<Rightarrow> [ld_flag h rawText (fst m)])"

definition detectLiquidatedDamages :: "host \<Rightarrow> jstring \<Rightarrow> RiskFlag list" where
  "detectLiquidatedDamages h rawText = ld_loop h rawText ldPatterns"

subsection \<open>Duplicate part numbers\<close>

text \<open>
  \<open>partNumberMap\<close> is a \<open>Map\<close>: it keeps its keys in the order of their first
  insertion, and setting a key that is present replaces its value in place.
\<close>

fun map_get :: "(jstring \<times> nat list) list \<Rightarrow> jstring \<Rightarrow> nat list option" where
  "map_get [] k = None"
| "map_get (p # ps) k = (if fst p = k then Some (snd p) else map_get ps k)"

fun map_set :: "(jstring \<times> nat list) list \<Rightarrow> jstring \<Rightarrow> nat list \<Rightarrow> (jstring \<times> nat list) list" where
  "map_set [] k v = [(k, v)]"
| "map_set (p # ps) k v = (if fst p = k then (k, v) # ps else p # map_set ps k v)"

definition add_part :: "host \<Rightarrow> (jstring \<times> nat list) list \<Rightarrow> ParsedRow \<Rightarrow> (jstring \<times> nat list) list" where
  "add_part h m row =
     (if partNumber row \<noteq> [] \<and> trim (partNumber row) \<noteq> []
      then (let pn = toUpperCase h (trim (partNumber row));
                existing = (case map_get m pn of None \<Rightarrow> [] | Some rs \<Rightarrow> rs)
            in map_set m pn (existing @ [rowNumber row]))
      else m)"

definition detectDuplicates :: "host \<Rightarrow> ParsedRow list \<Rightarrow> RiskFlag list" where
  "detectDuplicates h rows =
     concat (map (\<lambda>entry. if length (snd entry) > 1
                           then [\<lparr> rtype = Duplicate, level = Medium,
                                   title = js ''Duplicate Part Number: '' @ fst entry,
                                   affectedRows = Some (snd entry),
                                   extractedValue = Some (fst entry) \<rparr>]
                           else [])
                 (foldl (add_part h) [] rows))"

subsection \<open>Unit-of-measure conflicts\<close>

definition uom_flags :: "host \<Rightarrow> ParsedRow \<Rightarrow> RiskFlag list" where
  "uom_flags h row =
     (if unitOfMeasure row = [] then []
      else (let uom = trim (toLowerCase h (unitOfMeasure row))
            in case quantity row of
                 None \<Rightarrow> []
               | Some q \<Rightarrow>
                   (if num_gt q (Fin 10000)
                       \<and> list_ex (\<lambda>u. str_includes uom u)
                            [js ''reel'', js ''roll'', js ''drum'', js ''pallet'']
                    then [\<lparr> rtype = UomConflict, level = Medium,
                            title = js ''Unusually High Quantity for UoM'',
                            affectedRows = Some [rowNumber row],
                            extractedValue = Some (numToString h q @ js '' '' @ unitOfMeasure row) \<rparr>]
                    else [])
                   @ (if \<not> isInteger q
                         \<and> list_ex (\<lambda>u. str_includes uom u)
                              [js ''each'', js ''ea'', js ''pc'', js ''pcs'']
                      then [\<lparr> rtype = UomConflict, level = Low,
                              title = js ''Fractional Quantity for Discrete UoM'',
                              affectedRows = Some [rowNumber row],
                              extractedValue = Some (numToString h q @ js '' '' @ unitOfMeasure row) \<rparr>]
                      else [])))"

definition detectUoMConflicts :: "host \<Rightarrow> ParsedRow list \<Rightarrow> RiskFlag list" where
  "detectUoMConflicts h rows = concat (map (uom_flags h) rows)"

subsection \<open>Missing data\<close>

definition detectMissingData :: "host \<Rightarrow> ParsedRow list \<Rightarrow> RiskFlag list" where
  "detectMissingData h rows =
     (let rowsWithMissingPN =
            map rowNumber (filter (\<lambda>row. partNumber row = [] \<or> trim (partNumber row) = []) rows);
          rowsWithMissingQty = map rowNumber (filter (\<lambda>row. quantity row = None) rows)
      in (if length rowsWithMissingPN > 0
          then [\<lparr> rtype = MissingData,
                  level = (if length rowsWithMissingPN > 5 then High else Medium),
                  title = js ''Missing Part Numbers (''
                          @ numToString h (num_of_nat (length rowsWithMissingPN)) @ js '' rows)'',
                  affectedRows = Some (take 10 rowsWithMissingPN), extractedValue = None \<rparr>]
          else [])
         @ (if length rowsWithMissingQty > 0
            then [\<lparr> rtype = MissingData, level = Medium,
                    title = js ''Missing Quantities (''
                            @ numToString h (num_of_nat (length rowsWithMissingQty)) @ js '' rows)'',
                    affectedRows = Some (take 10 rowsWithMissingQty), extractedValue = None \<rparr>]
            else []))"

subsection \<open>All detectors, sorted\<close>

fun levelOrder :: "RiskLevel \<Rightarrow> nat" where
  "levelOrder Critical = 0"
| "levelOrder High = 1"
| "levelOrder Medium = 2"
| "levelOrder Low = 3"

text \<open>
  \<open>allRisks.sort((a, b) => levelOrder[a.level] - levelOrder[b.level])\<close>: the sort of
  arrays is stable, and the comparison orders by the rank of the level, so the result
  is the stable sort by that key. \<open>sort_key\<close> is insertion sort, which is stable.
\<close>

definition sort_by_level :: "RiskFlag list \<Rightarrow> RiskFlag list" where
  "sort_by_level allRisks = sort_key (\<lambda>r. levelOrder (level r)) allRisks"

definition analyzeAllRisks :: "host \<Rightarrow> jstring \<Rightarrow> ParsedRow list \<Rightarrow> RiskFlag list" where
  "analyzeAllRisks h rawText rows =
     sort_by_level (detectIncoterms h rawText @ detectLiquidatedDamages h rawText
                    @ detectDuplicates h rows @ detectUoMConflicts h rows
                    @ detectMissingData h rows)"

section \<open>Value normalizers (lib/excelParser.ts)\<close>

text \<open>\<open>String(value)\<close> for a cell that is neither \<open>null\<close> nor \<open>undefined\<close>.\<close>

fun String_cell :: "host \<Rightarrow> cell \<Rightarrow> jstring" where
  "String_cell h (CStr s) = s"
| "String_cell h (CNum n) = numToString h n"
| "String_cell h CNull = js ''null''"
| "String_cell h CUndefined = js ''undefined''"

text \<open>\<open>value === null || value === undefined || value === ''\<close>\<close>

fun is_blank :: "cell \<Rightarrow> bool" where
  "is_blank CNull = True"
| "is_blank CUndefined = True"
| "is_blank (CStr s) = (s = [])"
| "is_blank (CNum n) = False"

text \<open>\<open>replace(/[,\s]/g, '')\<close>\<close>

definition strip_quantity :: "jstring \<Rightarrow> jstring" where
  "strip_quantity s = filter (\<lambda>c. \<not> (c = 44 \<or> isWhiteSpace c)) s"

text \<open>
  \<open>replace(/[$\<dots>,\s]/g, '').replace(/[()]/g, '')\<close>, the class holding the dollar, the
  euro (U+20AC), the pound (U+00A3), the yen (U+00A5) and the won (U+20A9) signs.
\<close>

definition strip_price :: "jstring \<Rightarrow> jstring" where
  "strip_price s =
     filter (\<lambda>c. \<not> (c = 40 \<or> c = 41))
       (filter (\<lambda>c. \<not> (c \<in> set [36, 8364, 163, 165, 8361, 44] \<or> isWhiteSpace c)) s)"

definition parseQuantity :: "host \<Rightarrow> cell \<Rightarrow> jsnum option" where
  "parseQuantity h v =
     (if is_blank v then None
      else (let num = parseFloat (strip_quantity (String_cell h v))
            in if isNaN num then None else Some num))"

definition parsePrice :: "host \<Rightarrow> cell \<Rightarrow> jsnum option" where
  "parsePrice h v =
     (if is_blank v then None
      else (let num = parseFloat (strip_price (String_cell h v))
            in if isNaN num then None else Some num))"

section \<open>Limits (lib/limits.ts)\<close>

text \<open>\<open>ADMIN_MODE\<close> is read from the environment once; the model takes it as an argument.\<close>

definition MAX_ROWS :: nat where "MAX_ROWS = 100"

definition MAX_FILE_SIZE_MB :: nat where "MAX_FILE_SIZE_MB = 2"

definition MAX_FILE_SIZE_BYTES :: nat where
  "MAX_FILE_SIZE_BYTES = MAX_FILE_SIZE_MB * 1024 * 1024"

definition shouldEnforceLimit :: "bool \<Rightarrow> bool" where
  "shouldEnforceLimit admin = (\<not> admin)"

text \<open>The effective limit is \<open>Infinity\<close> in admin mode.\<close>

definition getEffectiveLimit :: "bool \<Rightarrow> nat \<Rightarrow> enat" where
  "getEffectiveLimit admin limit = (if admin then \<infinity> else enat limit)"

section \<open>The pipeline (app/actions/processExcel.ts)\<close>

text \<open>
  The result of the codec \<open>parseExcelBuffer\<close>, which the pipeline takes as given.
\<close>

record ExcelParseResult =
  pr_success :: bool
  pr_headers :: "jstring list"
  pr_rows :: "rawrow list"
  pr_rawText :: jstring
  pr_error :: "jstring option"

text \<open>
  What the action is called with: no file, or a file with its name and size. Reading
  and decoding the file happen inside the \<open>try\<close> block; they either raise, which the
  \<open>catch\<close> turns into the processing-error result, or hand over the codec's result.
\<close>

datatype read_outcome = Threw | Parsed ExcelParseResult

datatype upload = NoFile | Upload jstring nat read_outcome

record Summary =
  totalRows :: nat
  validRows :: nat
  totalRisks :: nat
  criticalRisks :: nat
  highRisks :: nat
  mediumRisks :: nat
  lowRisks :: nat

text \<open>\<open>QuoteAnalysis\<close> without \<open>processedAt\<close>, which is the time of the call.\<close>

record QuoteAnalysis =
  qa_success :: bool
  qa_fileName :: jstring
  qa_columnMapping :: ColumnMapping
  qa_rows :: "ParsedRow list"
  qa_risks :: "RiskFlag list"
  qa_summary :: Summary

definition no_mapping :: ColumnMapping where
  "no_mapping = \<lparr> cm_partNumber = None, cm_quantity = None, cm_description = None,
                   cm_unitPrice = None, cm_unitOfMeasure = None, cm_notes = None,
                   cm_terms = None, headerRow = 1 \<rparr>"

text \<open>The three failure results differ in the file name and in the title of their finding.\<close>

definition failure_result :: "jstring \<Rightarrow> jstring \<Rightarrow> QuoteAnalysis" where
  "failure_result name ttl =
     \<lparr> qa_success = False, qa_fileName = name, qa_columnMapping = no_mapping, qa_rows = [],
       qa_risks = [\<lparr> rtype = General, level = Critical, title = ttl, affectedRows = None,
                     extractedValue = None \<rparr>],
       qa_summary = \<lparr> totalRows = 0, validRows = 0, totalRisks = 1, criticalRisks = 1,
                       highRisks = 0, mediumRisks = 0, lowRisks = 0 \<rparr> \<rparr>"

text \<open>
  \<open>row[columnMapping.field || '']\<close>: a property the row does not own reads
  \<open>undefined\<close>. (The members a row inherits from \<open>Object.prototype\<close> are not modelled; a
  mapping that names one of them is outside the model.)
\<close>

definition mapped_cell :: "rawrow \<Rightarrow> jstring option \<Rightarrow> cell" where
  "mapped_cell row col =
     (case map_of row (case col of None \<Rightarrow> [] | Some k \<Rightarrow> k) of
        None \<Rightarrow> CUndefined
      | Some v \<Rightarrow> v)"

text \<open>\<open>String(v ?? '')\<close>\<close>

fun text_of :: "host \<Rightarrow> cell \<Rightarrow> jstring" where
  "text_of h CNull = []"
| "text_of h CUndefined = []"
| "text_of h v = String_cell h v"

text \<open>
  \<open>JSON.parse(JSON.stringify(row))\<close>: a property holding \<open>undefined\<close> is dropped, and
  a number that is not finite comes back as \<open>null\<close>.
\<close>

fun json_cell :: "jstring \<times> cell \<Rightarrow> (jstring \<times> cell) option" where
  "json_cell (k, CUndefined) = None"
| "json_cell (k, CNum (Fin q)) = Some (k, CNum (Fin q))"
| "json_cell (k, CNum n) = Some (k, CNull)"
| "json_cell (k, v) = Some (k, v)"

definition json_copy :: "rawrow \<Rightarrow> rawrow" where
  "json_copy row = List.map_filter json_cell row"

definition toParsedRow :: "host \<Rightarrow> ColumnMapping \<Rightarrow> nat \<times> rawrow \<Rightarrow> ParsedRow" where
  "toParsedRow h cm ir =
     \<lparr> rowNumber = fst ir + 2,
       partNumber = text_of h (mapped_cell (snd ir) (cm_partNumber cm)),
       quantity = parseQuantity h (mapped_cell (snd ir) (cm_quantity cm)),
       description = text_of h (mapped_cell (snd ir) (cm_description cm)),
       unitPrice = parsePrice h (mapped_cell (snd ir) (cm_unitPrice cm)),
       unitOfMeasure = text_of h (mapped_cell (snd ir) (cm_unitOfMeasure cm)),
       notes' = text_of h (mapped_cell (snd ir) (cm_notes cm)),
       rawData = json_copy (snd ir) \<rparr>"

text \<open>\<open>slice(0, maxRows)\<close>, where \<open>maxRows\<close> may be \<open>Infinity\<close>.\<close>

definition slice0 :: "enat \<Rightarrow> 'a list \<Rightarrow> 'a list" where
  "slice0 m xs = (case m of enat k \<Rightarrow> take k xs | \<infinity> \<Rightarrow> xs)"

definition row_limit_warning :: "host \<Rightarrow> nat \<Rightarrow> RiskFlag" where
  "row_limit_warning h limit =
     \<lparr> rtype = General, level = Medium,
       title = js ''Row Limit Applied ('' @ numToString h (num_of_nat limit) @ js '' rows)'',
       affectedRows = None, extractedValue = None \<rparr>"

definition summarize :: "ParsedRow list \<Rightarrow> RiskFlag list \<Rightarrow> Summary" where
  "summarize parsedRows risks =
     \<lparr> totalRows = length parsedRows,
       validRows = length (filter (\<lambda>r. partNumber r \<noteq> [] \<and> trim (partNumber r) \<noteq> []) parsedRows),
       totalRisks = length risks,
       criticalRisks = length (filter (\<lambda>r. level r = Critical) risks),
       highRisks = length (filter (\<lambda>r. level r = High) risks),
       mediumRisks = length (filter (\<lambda>r. level r = Medium) risks),
       lowRisks = length (filter (\<lambda>r. level r = Low) risks) \<rparr>"

text \<open>
  The part of the action after the column mapping is known. The mapping comes from
  outside (a language model, or the header heuristic when that fails) and is an
  argument here, as are the admin mode, the host and the configured row limit
  \<open>LIMITS.MAX_ROWS\<close>.
\<close>

definition analyze_parsed ::
  "host \<Rightarrow> bool \<Rightarrow> nat \<Rightarrow> ColumnMapping \<Rightarrow> jstring \<Rightarrow> ExcelParseResult \<Rightarrow> QuoteAnalysis" where
  "analyze_parsed h admin limit columnMapping name parseResult =
     (let maxRows = getEffectiveLimit admin limit;
          rowsToProcess = slice0 maxRows (pr_rows parseResult);
          wasLimited = (enat (length (pr_rows parseResult)) > maxRows);
          parsedRows = map (toParsedRow h columnMapping) (List.enumerate 0 rowsToProcess);
          sorted = analyzeAllRisks h (pr_rawText parseResult) parsedRows;
          risks = (if wasLimited \<and> shouldEnforceLimit admin
                   then row_limit_warning h limit # sorted else sorted)
      in \<lparr> qa_success = True, qa_fileName = name, qa_columnMapping = columnMapping,
           qa_rows = parsedRows, qa_risks = risks, qa_summary = summarize parsedRows risks \<rparr>)"

definition processExcelFile ::
  "host \<Rightarrow> bool \<Rightarrow> ColumnMapping \<Rightarrow> upload \<Rightarrow> QuoteAnalysis" where
  "processExcelFile h admin columnMapping up =
     (case up of
        NoFile \<Rightarrow> failure_result [] (js ''No File Provided'')
      | Upload name bytes outcome \<Rightarrow>
          if shouldEnforceLimit admin \<and> bytes > MAX_FILE_SIZE_BYTES
          then failure_result name (js ''Processing Error'')
          else (case outcome of
                  Threw \<Rightarrow> failure_result name (js ''Processing Error'')
                | Parsed parseResult \<Rightarrow>
                    if \<not> pr_success parseResult
                    then failure_result name (js ''Parse Error'')
                    else analyze_parsed h admin MAX_ROWS columnMapping name parseResult))"


section \<open>Example inputs\<close>

definition mk_row :: "nat \<Rightarrow> jstring \<Rightarrow> jsnum option \<Rightarrow> ParsedRow" where
  "mk_row rn pn q = \<lparr> rowNumber = rn, partNumber = pn, quantity = q, description = [],
                      unitPrice = None, unitOfMeasure = [], notes' = [], rawData = [] \<rparr>"

definition example_rows :: "ParsedRow list" where
  "example_rows = [mk_row 2 (js ''A-1'') None, mk_row 3 (js ''B-2'') (Some (Fin 0)),
                   mk_row 4 (js ''C-3'') (Some (Fin 5))]"

definition example_state :: state where
  "example_state = \<lparr> arrays = (\<lambda>a. [])(0 := example_rows), nextAddr = 1, currentRows = 0,
                      appliedRemediations = [], correctedFilesStore = [] \<rparr>"

definition mkfixes :: "host \<Rightarrow> jsnum \<Rightarrow> nat list \<Rightarrow> qfix list" where
  "mkfixes h d ts = map (\<lambda>rowNum. \<lparr> fix_rowNumber = rowNum, fix_quantity = d,
                                  fix_reason = js ''Auto-fixed: Set missing quantity to ''
                                               @ numToString h d \<rparr>) ts"

definition flag_of :: "RiskLevel \<Rightarrow> jstring \<Rightarrow> RiskFlag" where
  "flag_of l t = \<lparr> rtype = General, level = l, title = t, affectedRows = None, extractedValue = None \<rparr>"

definition ld_text :: jstring where
  "ld_text = js ''liquidated damages 0.1% per day up to 5%, 2% per week not to exceed 20%''"

definition ld_text2 :: jstring where
  "ld_text2 = js ''liquidated damages 2% per day''"

definition ddp_text :: jstring where
  "ddp_text = js ''DDP Delivered Duty Paid''"

definition sheet_of :: "nat \<Rightarrow> ExcelParseResult" where
  "sheet_of n = \<lparr> pr_success = True, pr_headers = [], pr_rows = replicate n [],
                  pr_rawText = [], pr_error = None \<rparr>"


section \<open>Properties of the row operations\<close>

lemma findIndex_None: "findIndex P xs = None \<longleftrightarrow> (\<forall>x\<in>set xs. \<not> P x)"
  by (induction xs) auto

lemma rows_of_assign [simp]: "rows_of (assign_new_array xs s) = xs"
  by (simp add: rows_of_def assign_new_array_def)

lemma rows_of_store [simp]: "rows_of (storeFixedRows a r s) = rows_of s"
  by (simp add: rows_of_def storeFixedRows_def)

lemma rows_of_applied [simp]: "rows_of (s\<lparr>appliedRemediations := x\<rparr>) = rows_of s"
  by (simp add: rows_of_def)

lemma applied_store [simp]: "appliedRemediations (storeFixedRows a r s) = appliedRemediations s"
  by (simp add: storeFixedRows_def)

lemma applied_assign [simp]: "appliedRemediations (assign_new_array xs s) = appliedRemediations s"
  by (simp add: assign_new_array_def)

text \<open>
  Claim C7. For every row list and every row number that no row carries, update-cell
  returns the failure result (success false, with the message naming the row) and the
  state after the call is the state before it: the row array, at its old address, has
  the same length and the same contents, and nothing was recorded or stored.
\<close>

theorem update_cell_not_found:
  assumes "rn \<notin> rowNumber ` set (rows_of s)"
  shows "\<not> update_success (fst (update_cell_value h rn fld nv s))
         \<and> update_message (fst (update_cell_value h rn fld nv s)) =
             js ''Row '' @ numToString h (num_of_nat rn) @ js '' not found in the data.''
         \<and> snd (update_cell_value h rn fld nv s) = s
         \<and> rows_of (snd (update_cell_value h rn fld nv s)) = rows_of s
         \<and> arrays (snd (update_cell_value h rn fld nv s)) = arrays s"
proof -
  have "findIndex (\<lambda>r. rowNumber r = rn) (rows_of s) = None"
    using assms by (auto simp: findIndex_None)
  then show ?thesis by (simp add: update_cell_value_def)
qed

lemma rows_delete: "rows_of (snd (delete_rows h rns s)) = filter (\<lambda>r. rowNumber r \<notin> set rns) (rows_of s)"
  by (simp add: delete_rows_def Let_def)

lemma count_delete: "deletedCount (fst (delete_rows h rns s)) = length (rows_of s) - length (filter (\<lambda>r. rowNumber r \<notin> set rns) (rows_of s))"
  by (simp add: delete_rows_def Let_def)

lemma holds_cleared: "\<not> holds_data fld (cleared fld row)"
  by (cases fld) (simp_all add: holds_data_def cleared_def)

lemma rows_clear: "rows_of (snd (clear_column h fld s)) = map (\<lambda>row. if holds_data fld row then cleared fld row else row) (rows_of s)"
  by (simp add: clear_column_def Let_def)

lemma count_clear: "affectedCount (fst (clear_column h fld s)) = length (filter (holds_data fld) (rows_of s))"
  by (simp add: clear_column_def Let_def)

lemma applied_clear: "appliedRemediations (snd (clear_column h fld s)) =
   appliedRemediations s @ (if filter (holds_data fld) (rows_of s) = [] then [] else [\<lparr> fix_rowNumber = 0, fix_quantity = Fin 0,
                              fix_reason = js ''Cleared column: '' @ field_name fld \<rparr>])"
  by (simp add: clear_column_def Let_def)

lemma no_data_after_clear: "filter (holds_data fld) (map (\<lambda>row. if holds_data fld row then cleared fld row else row) rows) = []"
  by (induction rows) (auto simp: holds_cleared)

text \<open>
  Every call of clear-column, also one that affects no row, stores a download whose
  entry carries the one bulk note; only the list of applied remediations depends on
  the affected count.
\<close>

lemma clear_column_stores_entry:
  "correctedFilesStore (snd (clear_column h fld s)) =
     correctedFilesStore s
     @ [\<lparr> stored_rows = nextAddr s,
          remediations = [\<lparr> rem_rowNumber = 0, rem_field = fld, oldValue = VStr (js ''ALL''),
                            newValue = VNull, reason = js ''Cleared column: '' @ field_name fld \<rparr>] \<rparr>]"
  by (simp add: clear_column_def Let_def storeFixedRows_def assign_new_array_def)

text \<open>
  Claim C9. Replaying delete-rows with the same row numbers on the result of the first
  call removes no further row and leaves the rows as they are; replaying clear-column
  with the same field on the result of the first call reports an affected count of 0,
  appends nothing to the list of applied remediations (\<open>appliedRemediations\<close>) and
  leaves the rows as they are.
\<close>

theorem delete_and_clear_replay:
  "deletedCount (fst (delete_rows h rns (snd (delete_rows h rns s)))) = 0
   \<and> rows_of (snd (delete_rows h rns (snd (delete_rows h rns s)))) = rows_of (snd (delete_rows h rns s))
   \<and> affectedCount (fst (clear_column h fld (snd (clear_column h fld s)))) = 0
   \<and> appliedRemediations (snd (clear_column h fld (snd (clear_column h fld s)))) = appliedRemediations (snd (clear_column h fld s))
   \<and> rows_of (snd (clear_column h fld (snd (clear_column h fld s)))) = rows_of (snd (clear_column h fld s))"
  apply (intro conjI)
      apply (simp add: count_delete rows_delete)
     apply (simp add: rows_delete)
    apply (simp add: count_clear rows_clear no_data_after_clear)
   apply (simp add: applied_clear rows_clear no_data_after_clear)
  apply (simp add: rows_clear holds_cleared)
  done


lemma find_fix:
  "find (\<lambda>f. fix_rowNumber f = rn) (map (\<lambda>n. \<lparr> fix_rowNumber = n, fix_quantity = d, fix_reason = w \<rparr>) ts)
     = (if rn \<in> set ts then Some \<lparr> fix_rowNumber = rn, fix_quantity = d, fix_reason = w \<rparr> else None)"
  by (induction ts) auto

lemma num_eq_zero: "num_eq n (Fin 0) \<longleftrightarrow> n = Fin 0"
  by (cases n) auto

lemma findMissing_eq:
  "findMissingQuantities rows =
     map rowNumber (filter (\<lambda>row. quantity row = None \<or> quantity row = Some (Fin 0)) rows)"
proof -
  have "(case q of None \<Rightarrow> True | Some n \<Rightarrow> num_eq n (Fin 0)) = (q = None \<or> q = Some (Fin 0))"
    for q by (cases q) (simp_all add: num_eq_zero)
  then show ?thesis by (simp add: findMissingQuantities_def)
qed

lemma fix_affected:
  "fix_affectedRows (fst (fix_missing_quantities h d None s)) = findMissingQuantities (rows_of s)"
  by (simp add: fix_missing_quantities_def Let_def split_def)

lemma fix_rows:
  "rows_of (snd (fix_missing_quantities h d None s)) =
     fst (applyQuantityFixes (rows_of s) (mkfixes h d (findMissingQuantities (rows_of s))))"
  by (simp add: fix_missing_quantities_def Let_def split_def mkfixes_def)

lemma fix_stored:
  "remediations (last (correctedFilesStore (snd (fix_missing_quantities h d None s)))) =
     map (\<lambda>f. \<lparr> rem_rowNumber = fix_rowNumber f, rem_field = Quantity,
                              oldValue = VNull, newValue = VNum (fix_quantity f),
                              reason = fix_reason f \<rparr>) (mkfixes h d (findMissingQuantities (rows_of s)))"
  by (simp add: fix_missing_quantities_def Let_def split_def mkfixes_def storeFixedRows_def)

lemma fix_applied:
  "appliedRemediations (snd (fix_missing_quantities h d None s)) =
     appliedRemediations s @ mkfixes h d (findMissingQuantities (rows_of s))"
  by (simp add: fix_missing_quantities_def Let_def split_def mkfixes_def)

lemma apply_fixes_rows:
  "fst (applyQuantityFixes rows (mkfixes h d ts)) =
     map (\<lambda>row. if rowNumber row \<in> set ts then row\<lparr>quantity := Some d\<rparr> else row) rows"
  by (simp add: applyQuantityFixes_def mkfixes_def find_fix)

text \<open>
  Claim C1, as amended. Called without target rows, fix-missing-quantities targets the
  row numbers of exactly the rows whose quantity is absent (null) or equal to 0, in row
  order. Every row carrying a targeted number gets the default quantity, every other
  row is kept as it is, the stored download holds one remediation per targeted row
  number, each with old value null, and the list of applied remediations grows by one
  entry per targeted row number.
\<close>

theorem fix_missing_quantities_targets:
  "fix_affectedRows (fst (fix_missing_quantities h d None s)) =
     map rowNumber (filter (\<lambda>row. quantity row = None \<or> quantity row = Some (Fin 0)) (rows_of s))
   \<and> rows_of (snd (fix_missing_quantities h d None s)) =
       map (\<lambda>row. if rowNumber row \<in> set (fix_affectedRows (fst (fix_missing_quantities h d None s)))
                  then row\<lparr>quantity := Some d\<rparr> else row) (rows_of s)
   \<and> remediations (last (correctedFilesStore (snd (fix_missing_quantities h d None s)))) =
       map (\<lambda>rn. \<lparr> rem_rowNumber = rn, rem_field = Quantity, oldValue = VNull, newValue = VNum d,
                    reason = js ''Auto-fixed: Set missing quantity to '' @ numToString h d \<rparr>)
           (fix_affectedRows (fst (fix_missing_quantities h d None s)))
   \<and> appliedRemediations (snd (fix_missing_quantities h d None s)) =
       appliedRemediations s
       @ map (\<lambda>rn. \<lparr> fix_rowNumber = rn, fix_quantity = d,
                      fix_reason = js ''Auto-fixed: Set missing quantity to '' @ numToString h d \<rparr>)
             (fix_affectedRows (fst (fix_missing_quantities h d None s)))"
  apply (intro conjI)
     apply (simp add: fix_affected findMissing_eq)
    apply (simp only: fix_rows fix_affected apply_fixes_rows)
   apply (simp only: fix_stored fix_affected)
   apply (simp add: mkfixes_def o_def)
  apply (simp only: fix_applied fix_affected mkfixes_def)
  done

text \<open>
  The claim as stated fails on a row whose quantity is 0: of the rows 2 (no quantity),
  3 (quantity 0) and 4 (quantity 5), the call targets 2 and 3 and overwrites the 0.
\<close>

theorem fix_targets_zero_quantity:
  "map quantity (rows_of example_state) = [None, Some (Fin 0), Some (Fin 5)]
   \<and> fix_affectedRows (fst (fix_missing_quantities ascii_host (Fin 1) None example_state)) = [2, 3]
   \<and> map quantity (rows_of (snd (fix_missing_quantities ascii_host (Fin 1) None example_state)))
       = [Some (Fin 1), Some (Fin 1), Some (Fin 5)]"
  by (simp add: fix_missing_quantities_def Let_def applyQuantityFixes_def split_def
      findMissingQuantities_def storeFixedRows_def example_state_def example_rows_def mk_row_def
      rows_of_def assign_new_array_def)

text \<open>Row 7 of a three-row sheet whose rows are numbered 2 to 4.\<close>

theorem update_cell_not_found_witness:
  "7 \<notin> rowNumber ` set (rows_of example_state)
   \<and> \<not> update_success (fst (update_cell_value ascii_host 7 Quantity (NewNum (Fin 4)) example_state))
   \<and> update_message (fst (update_cell_value ascii_host 7 Quantity (NewNum (Fin 4)) example_state))
       = js ''Row 7 not found in the data.''
   \<and> snd (update_cell_value ascii_host 7 Quantity (NewNum (Fin 4)) example_state) = example_state"
proof -
  have h: "7 \<notin> rowNumber ` set (rows_of example_state)"
    by (simp add: example_state_def example_rows_def mk_row_def rows_of_def)
  have "numToString ascii_host (num_of_nat 7) = js ''7''"
    by (simp add: ascii_host_def num_of_nat_def nat_str_def js_def eval_nat_numeral)
  with update_cell_not_found [OF h, of ascii_host Quantity "NewNum (Fin 4)"] h
  show ?thesis by (simp add: js_def)
qed

subsection \<open>Which operations write into the array they are given\<close>

lemma delete_rows_fresh:
  "currentRows (snd (delete_rows h rns s)) = nextAddr s
   \<and> (\<forall>a. a \<noteq> nextAddr s \<longrightarrow> arrays (snd (delete_rows h rns s)) a = arrays s a)"
  by (simp add: delete_rows_def Let_def assign_new_array_def storeFixedRows_def)

lemma clear_column_fresh:
  "currentRows (snd (clear_column h fld s)) = nextAddr s
   \<and> (\<forall>a. a \<noteq> nextAddr s \<longrightarrow> arrays (snd (clear_column h fld s)) a = arrays s a)"
  by (simp add: clear_column_def Let_def assign_new_array_def storeFixedRows_def)

lemma fix_missing_fresh:
  "currentRows (snd (fix_missing_quantities h d ts s)) = nextAddr s
   \<and> (\<forall>a. a \<noteq> nextAddr s \<longrightarrow> arrays (snd (fix_missing_quantities h d ts s)) a = arrays s a)"
  by (simp add: fix_missing_quantities_def Let_def split_def assign_new_array_def storeFixedRows_def)

text \<open>
  Update-cell on a row it finds keeps \<open>currentRows\<close> and writes the new row into that
  array, at the index found; the other elements and the other arrays stay.
\<close>

lemma update_cell_in_place:
  assumes "findIndex (\<lambda>r. rowNumber r = rn) (rows_of s) = Some i"
  shows "currentRows (snd (update_cell_value h rn fld nv s)) = currentRows s
         \<and> (\<forall>a. a \<noteq> currentRows s \<longrightarrow> arrays (snd (update_cell_value h rn fld nv s)) a = arrays s a)
         \<and> arrays (snd (update_cell_value h rn fld nv s)) (currentRows s) =
             (rows_of s)[i := (if fld = Quantity \<or> fld = UnitPrice
                               then set_number fld (Some (number_of_new nv)) (rows_of s ! i)
                               else set_string fld (String_val h (val_of_new nv)) (rows_of s ! i))]"
  using assms by (simp add: update_cell_value_def Let_def storeFixedRows_def)

text \<open>
  Claim C2 fails on update-cell. The three other operations assign a new array and
  leave every array that existed before the call as it was (the three lemmas above).
  Update-cell assigns into the array it was given: called on the three-row sheet whose
  array is at address 0, it leaves \<open>currentRows\<close> at address 0 and the array at that
  address now holds the new row. The second half shows what follows for stored
  downloads: after delete-rows has stored the array at address 1 under a token,
  update-cell changes what that token delivers.
\<close>

theorem update_cell_overwrites_input_array:
  "currentRows example_state = 0
   \<and> map quantity (arrays example_state 0) = [None, Some (Fin 0), Some (Fin 5)]
   \<and> update_success (fst (update_cell_value ascii_host 4 Quantity (NewNum (Fin 9)) example_state))
   \<and> currentRows (snd (update_cell_value ascii_host 4 Quantity (NewNum (Fin 9)) example_state)) = 0
   \<and> map quantity (arrays (snd (update_cell_value ascii_host 4 Quantity (NewNum (Fin 9)) example_state)) 0)
       = [None, Some (Fin 0), Some (Fin 9)]
   \<and> stored_rows (hd (correctedFilesStore (snd (delete_rows ascii_host [3] example_state)))) = 1
   \<and> map quantity (arrays (snd (delete_rows ascii_host [3] example_state)) 1) = [None, Some (Fin 5)]
   \<and> map quantity
         (arrays (snd (update_cell_value ascii_host 4 Quantity (NewNum (Fin 9))
                         (snd (delete_rows ascii_host [3] example_state)))) 1)
       = [None, Some (Fin 9)]"
  by (simp add: update_cell_value_def delete_rows_def Let_def storeFixedRows_def
      assign_new_array_def example_state_def example_rows_def mk_row_def rows_of_def)

section \<open>Properties of the value normalizers\<close>

lemma not_Some_NaN: "(if isNaN n then None else Some n) \<noteq> Some NaN"
  by (cases n) simp_all

lemma parseFloat_1234: "parseFloat (js ''1234'') = Fin 1234"
  by (simp add: parseFloat_def js_def isWhiteSpace_def isDigit_def digits_val_def
      exponent_of_def scale10_def Let_def)

lemma parseFloat_100: "parseFloat (js ''100'') = Fin 100"
  by (simp add: parseFloat_def js_def isWhiteSpace_def isDigit_def digits_val_def
      exponent_of_def scale10_def Let_def)

lemma parseFloat_1234_50: "parseFloat (js ''1234.50'') = Fin (2469 / 2)"
  by (simp add: parseFloat_def js_def isWhiteSpace_def isDigit_def digits_val_def
      exponent_of_def scale10_def Let_def)

lemma parseFloat_abc: "parseFloat (js ''abc'') = NaN"
  by (simp add: parseFloat_def js_def isWhiteSpace_def isDigit_def digits_val_def
      exponent_of_def scale10_def Let_def)

lemma strip_price_filter:
  "strip_price s =
     filter (\<lambda>c. c \<notin> set [36, 8364, 163, 165, 8361, 40, 41, 44] \<and> \<not> isWhiteSpace c) s"
  by (auto simp: strip_price_def intro: filter_cong)

text \<open>
  Claim C8. \<open>parseQuantity\<close> and \<open>parsePrice\<close> are total. The result is absent when
  the input is \<open>null\<close>, \<open>undefined\<close> or the empty string, or when \<open>parseFloat\<close> finds no
  number in the stripped text; otherwise it is the number \<open>parseFloat\<close> reads from the
  stripped text, which is never NaN. \<open>parseQuantity\<close> strips commas and white space;
  \<open>parsePrice\<close> strips these, the five currency signs and both parentheses, and does not
  negate. So \<open>"1,234"\<close> reads 1234, \<open>"abc"\<close> is absent, \<open>"$1,234.50"\<close> reads 1234.5 and
  \<open>"(100)"\<close> reads 100.
\<close>

theorem normalizers_total:
  "parseQuantity h v =
     (if is_blank v \<or> isNaN (parseFloat (strip_quantity (String_cell h v))) then None
      else Some (parseFloat (strip_quantity (String_cell h v))))
   \<and> parsePrice h v =
       (if is_blank v \<or> isNaN (parseFloat (strip_price (String_cell h v))) then None
        else Some (parseFloat (strip_price (String_cell h v))))
   \<and> parseQuantity h v \<noteq> Some NaN \<and> parsePrice h v \<noteq> Some NaN
   \<and> parseQuantity h CNull = None \<and> parseQuantity h CUndefined = None
   \<and> parseQuantity h (CStr []) = None
   \<and> parsePrice h CNull = None \<and> parsePrice h CUndefined = None \<and> parsePrice h (CStr []) = None
   \<and> strip_quantity s = filter (\<lambda>c. c \<noteq> 44 \<and> \<not> isWhiteSpace c) s
   \<and> strip_price s =
       filter (\<lambda>c. c \<notin> set [36, 8364, 163, 165, 8361, 40, 41, 44] \<and> \<not> isWhiteSpace c) s
   \<and> parseQuantity h (CStr (js ''1,234'')) = Some (Fin 1234)
   \<and> parseQuantity h (CStr (js ''abc'')) = None
   \<and> parsePrice h (CStr (js ''$1,234.50'')) = Some (Fin (2469 / 2))
   \<and> parsePrice h (CStr (js ''(100)'')) = Some (Fin 100)"
proof -
  have q1: "strip_quantity (js ''1,234'') = js ''1234''"
    by (simp add: strip_quantity_def js_def isWhiteSpace_def)
  have q2: "strip_quantity (js ''abc'') = js ''abc''"
    by (simp add: strip_quantity_def js_def isWhiteSpace_def)
  have p1: "strip_price (js ''$1,234.50'') = js ''1234.50''"
    by (simp add: strip_price_def js_def isWhiteSpace_def)
  have p2: "strip_price (js ''(100)'') = js ''100''"
    by (simp add: strip_price_def js_def isWhiteSpace_def)
  have ne: "js ''1,234'' \<noteq> []" "js ''abc'' \<noteq> []" "js ''$1,234.50'' \<noteq> []" "js ''(100)'' \<noteq> []"
    by (simp_all add: js_def)
  show ?thesis
    apply (intro conjI)
                  apply (simp add: parseQuantity_def Let_def)
                 apply (simp add: parsePrice_def Let_def)
                apply (simp add: parseQuantity_def Let_def not_Some_NaN)
               apply (simp add: parsePrice_def Let_def not_Some_NaN)
              apply (simp add: parseQuantity_def)
             apply (simp add: parseQuantity_def)
            apply (simp add: parseQuantity_def)
           apply (simp add: parsePrice_def)
          apply (simp add: parsePrice_def)
         apply (simp add: parsePrice_def)
        apply (simp add: strip_quantity_def)
       apply (rule strip_price_filter)
      apply (simp add: parseQuantity_def Let_def ne q1 parseFloat_1234)
     apply (simp add: parseQuantity_def Let_def ne q2 parseFloat_abc)
    apply (simp add: parsePrice_def Let_def ne p1 parseFloat_1234_50)
    apply (simp add: parsePrice_def Let_def ne p2 parseFloat_100)
    done
qed


section \<open>Properties of the aggregator\<close>

lemma levelOrder_inj: "levelOrder a = levelOrder b \<longleftrightarrow> a = b"
  by (cases a; cases b) simp_all

lemma filter_level_sorted:
  "filter (\<lambda>r. level r = l) (sort_by_level xs) = filter (\<lambda>r. level r = l) xs"
proof -
  have "filter (\<lambda>r. levelOrder (level r) = levelOrder l) (sort_key (\<lambda>r. levelOrder (level r)) xs)
        = filter (\<lambda>r. levelOrder (level r) = levelOrder l) xs"
    by (rule sort_key_stable)
  then show ?thesis by (simp add: sort_by_level_def levelOrder_inj)
qed

text \<open>
  Claim C3. The aggregator sorts the concatenation of the five detector outputs, taken
  in the order Incoterms, liquidated damages, duplicates, units of measure, missing
  data. For any five lists of findings the sorted list is a permutation of their
  concatenation, its levels are in the order critical, high, medium, low, and findings
  of one level keep the order they had in the concatenation.
\<close>

theorem analyzeAllRisks_sorted_stable:
  "analyzeAllRisks h rawText rows =
     sort_by_level (detectIncoterms h rawText @ detectLiquidatedDamages h rawText
                    @ detectDuplicates h rows @ detectUoMConflicts h rows
                    @ detectMissingData h rows)
   \<and> mset (sort_by_level (inc @ ld @ dup @ uom @ mis)) = mset (inc @ ld @ dup @ uom @ mis)
   \<and> sorted (map (\<lambda>r. levelOrder (level r)) (sort_by_level (inc @ ld @ dup @ uom @ mis)))
   \<and> (\<forall>l. filter (\<lambda>r. level r = l) (sort_by_level (inc @ ld @ dup @ uom @ mis))
            = filter (\<lambda>r. level r = l) (inc @ ld @ dup @ uom @ mis))"
  by (simp only: filter_level_sorted analyzeAllRisks_def)
     (simp add: sort_by_level_def)

text \<open>Levels low, critical, medium, high, medium, critical, with their titles as marks.\<close>

lemma sort_example:
  "sort_by_level ([flag_of Low (js ''a''), flag_of Critical (js ''b'')] @ [flag_of Medium (js ''c'')] @ [] @ [flag_of High (js ''d''), flag_of Medium (js ''e'')] @ [flag_of Critical (js ''f'')])
   = [flag_of Critical (js ''b''), flag_of Critical (js ''f''), flag_of High (js ''d''), flag_of Medium (js ''c''), flag_of Medium (js ''e''), flag_of Low (js ''a'')]"
  by (simp add: sort_by_level_def flag_of_def)


section \<open>Properties of the pipeline\<close>

lemma incoterms_type: "f \<in> set (detectIncoterms h t) \<Longrightarrow> rtype f = Incoterms"
  by (auto simp: detectIncoterms_def Let_def incoterm_flags_def ddp_phrase_flag_def
      split: if_splits option.splits)

lemma ld_loop_type: "f \<in> set (ld_loop h t ps) \<Longrightarrow> rtype f = LiquidatedDamages"
  by (induction ps) (auto simp: ld_flag_def Let_def split: option.splits)

lemma duplicates_type: "f \<in> set (detectDuplicates h rows) \<Longrightarrow> rtype f = Duplicate"
  by (auto simp: detectDuplicates_def split: if_splits)

lemma uom_type: "f \<in> set (detectUoMConflicts h rows) \<Longrightarrow> rtype f = UomConflict"
  by (auto simp: detectUoMConflicts_def uom_flags_def Let_def split: if_splits option.splits)

lemma missing_type: "f \<in> set (detectMissingData h rows) \<Longrightarrow> rtype f = MissingData"
  by (auto simp: detectMissingData_def Let_def split: if_splits)

lemma no_general: "filter (\<lambda>f. rtype f = General) (analyzeAllRisks h t rows) = []"
proof -
  have "\<forall>f \<in> set (analyzeAllRisks h t rows). rtype f \<noteq> General"
    by (auto simp: analyzeAllRisks_def sort_by_level_def detectLiquidatedDamages_def
        dest: incoterms_type ld_loop_type duplicates_type uom_type missing_type)
  then show ?thesis by (simp add: filter_empty_conv)
qed

lemma map_fst_part: "map (\<lambda>x. f (fst x)) ys = map f (map fst ys)"
  by (simp add: o_def)

lemma map_snd_part: "map (\<lambda>x. f (snd x)) ys = map f (map snd ys)"
  by (simp add: o_def)

lemma rowNumbers_enumerate:
  "map rowNumber (map (toParsedRow h cm) (List.enumerate 0 xs)) = [2 ..< length xs + 2]"
proof -
  have "map rowNumber (map (toParsedRow h cm) (List.enumerate 0 xs))
        = map (\<lambda>x. fst x + 2) (List.enumerate 0 xs)"
    by (simp add: toParsedRow_def o_def)
  also have "\<dots> = map (\<lambda>i. i + 2) (map fst (List.enumerate 0 xs))"
    by (rule map_fst_part [of "\<lambda>i. i + 2"])
  also have "\<dots> = map (\<lambda>i. i + 2) [0 ..< length xs]"
    by (simp only: map_fst_enumerate add_0)
  also have "\<dots> = [2 ..< length xs + 2]"
    using map_add_upt [of 2 "length xs"] by simp
  finally show ?thesis .
qed

lemma rawData_enumerate:
  "map rawData (map (toParsedRow h cm) (List.enumerate 0 xs)) = map json_copy xs"
proof -
  have "map rawData (map (toParsedRow h cm) (List.enumerate 0 xs))
        = map (\<lambda>x. json_copy (snd x)) (List.enumerate 0 xs)"
    by (simp add: toParsedRow_def o_def)
  also have "\<dots> = map json_copy (map snd (List.enumerate 0 xs))"
    by (rule map_snd_part [of json_copy])
  finally show ?thesis by (simp only: map_snd_enumerate)
qed

lemma slice0_take: "slice0 c xs = take (length (slice0 c xs)) xs"
  by (cases c) (simp_all add: slice0_def min_def)

lemma slice0_length: "enat (length (slice0 c xs)) = min (enat (length xs)) c"
  by (cases c) (simp_all add: slice0_def min_def)

lemma qa_rows_analyze:
  "qa_rows (analyze_parsed h admin limit cm name pr) =
     map (toParsedRow h cm) (List.enumerate 0 (slice0 (getEffectiveLimit admin limit) (pr_rows pr)))"
  by (simp add: analyze_parsed_def Let_def)

lemma qa_risks_analyze:
  "qa_risks (analyze_parsed h admin limit cm name pr) =
     (if enat (length (pr_rows pr)) > getEffectiveLimit admin limit
      then [row_limit_warning h limit] else [])
     @ analyzeAllRisks h (pr_rawText pr) (qa_rows (analyze_parsed h admin limit cm name pr))"
  by (simp add: analyze_parsed_def Let_def getEffectiveLimit_def shouldEnforceLimit_def)

text \<open>The successful run of the action is \<open>analyze_parsed\<close> at the configured limit.\<close>

lemma process_success_path:
  assumes "pr_success pr" and "admin \<or> bytes \<le> MAX_FILE_SIZE_BYTES"
  shows "processExcelFile h admin cm (Upload name bytes (Parsed pr)) =
           analyze_parsed h admin MAX_ROWS cm name pr"
  using assms by (auto simp: processExcelFile_def shouldEnforceLimit_def)

text \<open>
  Claim C5. With \<open>n\<close> raw rows and the effective ceiling \<open>c\<close> (the configured limit, or
  infinity in admin mode) the pipeline builds exactly \<open>min n c\<close> rows, numbered 2, 3, ...
  without a gap, the \<open>i\<close>-th built from the \<open>i\<close>-th raw row; and the findings of type
  \<open>general\<close> in the result are the one truncation warning, of level medium, when
  \<open>n > c\<close>, and none otherwise.
\<close>

theorem materialized_rows_and_warning:
  "enat (length (qa_rows (analyze_parsed h admin limit cm name pr)))
     = min (enat (length (pr_rows pr))) (getEffectiveLimit admin limit)
   \<and> map rowNumber (qa_rows (analyze_parsed h admin limit cm name pr))
       = [2 ..< length (qa_rows (analyze_parsed h admin limit cm name pr)) + 2]
   \<and> map rawData (qa_rows (analyze_parsed h admin limit cm name pr))
       = map json_copy (take (length (qa_rows (analyze_parsed h admin limit cm name pr))) (pr_rows pr))
   \<and> filter (\<lambda>f. rtype f = General) (qa_risks (analyze_parsed h admin limit cm name pr))
       = (if enat (length (pr_rows pr)) > getEffectiveLimit admin limit
          then [row_limit_warning h limit] else [])
   \<and> level (row_limit_warning h limit) = Medium
   \<and> rtype (row_limit_warning h limit) = General"
proof (intro conjI)
  show "enat (length (qa_rows (analyze_parsed h admin limit cm name pr)))
     = min (enat (length (pr_rows pr))) (getEffectiveLimit admin limit)"
    by (simp add: qa_rows_analyze slice0_length)
  show "map rowNumber (qa_rows (analyze_parsed h admin limit cm name pr))
       = [2 ..< length (qa_rows (analyze_parsed h admin limit cm name pr)) + 2]"
    unfolding qa_rows_analyze rowNumbers_enumerate by simp
  show "map rawData (qa_rows (analyze_parsed h admin limit cm name pr))
       = map json_copy (take (length (qa_rows (analyze_parsed h admin limit cm name pr))) (pr_rows pr))"
    unfolding qa_rows_analyze rawData_enumerate using slice0_take [of "getEffectiveLimit admin limit" "pr_rows pr"]
    by simp
  show "filter (\<lambda>f. rtype f = General) (qa_risks (analyze_parsed h admin limit cm name pr))
       = (if enat (length (pr_rows pr)) > getEffectiveLimit admin limit
          then [row_limit_warning h limit] else [])"
    by (simp add: qa_risks_analyze no_general row_limit_warning_def)
  show "level (row_limit_warning h limit) = Medium"
    by (simp add: row_limit_warning_def)
  show "rtype (row_limit_warning h limit) = General"
    by (simp add: row_limit_warning_def)
qed

text \<open>
  Three raw rows under the limit 100 give the row numbers 2, 3, 4 and no warning; 150
  raw rows give 100 rows and the warning, of level medium.
\<close>

theorem materialized_rows_witness:
  "map rowNumber (qa_rows (analyze_parsed ascii_host False 100 no_mapping (js ''a.xlsx'') (sheet_of 3)))
     = [2, 3, 4]
   \<and> filter (\<lambda>f. rtype f = General)
         (qa_risks (analyze_parsed ascii_host False 100 no_mapping (js ''a.xlsx'') (sheet_of 3))) = []
   \<and> length (qa_rows (analyze_parsed ascii_host False 100 no_mapping (js ''a.xlsx'') (sheet_of 150)))
       = 100
   \<and> map level (filter (\<lambda>f. rtype f = General)
         (qa_risks (analyze_parsed ascii_host False 100 no_mapping (js ''a.xlsx'') (sheet_of 150))))
       = [Medium]"
proof -
  have three: "length (qa_rows (analyze_parsed ascii_host False 100 no_mapping (js ''a.xlsx'') (sheet_of 3))) = 3"
    using materialized_rows_and_warning [of ascii_host False 100 no_mapping "js ''a.xlsx''" "sheet_of 3"]
    by (simp add: sheet_of_def getEffectiveLimit_def)
  have many: "length (qa_rows (analyze_parsed ascii_host False 100 no_mapping (js ''a.xlsx'') (sheet_of 150))) = 100"
    using materialized_rows_and_warning [of ascii_host False 100 no_mapping "js ''a.xlsx''" "sheet_of 150"]
    by (simp add: sheet_of_def getEffectiveLimit_def)
  have upt: "[2 ..< 3 + 2] = [2, 3, (4::nat)]"
    by (simp add: upt_conv_Cons)
  show ?thesis
    using materialized_rows_and_warning [of ascii_host False 100 no_mapping "js ''a.xlsx''" "sheet_of 3"]
      materialized_rows_and_warning [of ascii_host False 100 no_mapping "js ''a.xlsx''" "sheet_of 150"]
      three many upt
    by (simp add: sheet_of_def getEffectiveLimit_def)
qed

lemma level_partition:
  "length xs = length (filter (\<lambda>r. level r = Critical) xs) + length (filter (\<lambda>r. level r = High) xs)
     + length (filter (\<lambda>r. level r = Medium) xs) + length (filter (\<lambda>r. level r = Low) xs)"
proof (induction xs)
  case Nil
  then show ?case by simp
next
  case (Cons x xs)
  then show ?case by (cases "level x") simp_all
qed

lemma trim_Nil [simp]: "trim [] = []"
  by (simp add: trim_def)

lemma summarize_ok:
  "totalRisks (summarize ps rs) = length rs
   \<and> totalRisks (summarize ps rs) = criticalRisks (summarize ps rs) + highRisks (summarize ps rs)
        + mediumRisks (summarize ps rs) + lowRisks (summarize ps rs)
   \<and> totalRows (summarize ps rs) = length ps
   \<and> validRows (summarize ps rs) = length (filter (\<lambda>r. trim (partNumber r) \<noteq> []) ps)
   \<and> validRows (summarize ps rs) \<le> totalRows (summarize ps rs)"
proof -
  have "(\<lambda>r. partNumber r \<noteq> [] \<and> trim (partNumber r) \<noteq> []) = (\<lambda>r::ParsedRow. trim (partNumber r) \<noteq> [])"
    by auto
  then show ?thesis
    using level_partition [of rs] by (simp add: summarize_def)
qed

lemma analyze_parsed_fields:
  "qa_summary (analyze_parsed h admin limit cm name pr) =
     summarize (qa_rows (analyze_parsed h admin limit cm name pr)) (qa_risks (analyze_parsed h admin limit cm name pr))"
  by (simp add: analyze_parsed_def Let_def)

lemma failure_fields:
  "qa_summary (failure_result name ttl) =
     summarize (qa_rows (failure_result name ttl)) (qa_risks (failure_result name ttl))"
  by (simp add: failure_result_def summarize_def)

lemma process_summary:
  "qa_summary (processExcelFile h admin cm up) =
     summarize (qa_rows (processExcelFile h admin cm up)) (qa_risks (processExcelFile h admin cm up))"
  by (simp add: processExcelFile_def analyze_parsed_fields failure_fields
      split: upload.split read_outcome.split)

text \<open>
  Claim C10. In every result of the pipeline, for a failed as for a successful run,
  the total of risks is the length of the risk list and the sum of the four per-level
  counts, the total of rows is the length of the row list, and the count of valid rows
  is the number of rows whose trimmed part number is not empty, which is at most the
  total of rows.
\<close>

theorem summary_counts:
  "totalRisks (qa_summary (processExcelFile h admin cm up)) = length (qa_risks (processExcelFile h admin cm up))
   \<and> totalRisks (qa_summary (processExcelFile h admin cm up)) =
       criticalRisks (qa_summary (processExcelFile h admin cm up))
       + highRisks (qa_summary (processExcelFile h admin cm up))
       + mediumRisks (qa_summary (processExcelFile h admin cm up))
       + lowRisks (qa_summary (processExcelFile h admin cm up))
   \<and> totalRows (qa_summary (processExcelFile h admin cm up)) = length (qa_rows (processExcelFile h admin cm up))
   \<and> validRows (qa_summary (processExcelFile h admin cm up)) =
       length (filter (\<lambda>r. trim (partNumber r) \<noteq> []) (qa_rows (processExcelFile h admin cm up)))
   \<and> validRows (qa_summary (processExcelFile h admin cm up)) \<le> totalRows (qa_summary (processExcelFile h admin cm up))"
  unfolding process_summary by (rule summarize_ok)

section \<open>Properties of the text detectors\<close>

subsection \<open>The matcher\<close>

text \<open>A match never gives back text: the rest after it is no longer than before.\<close>

lemma star_iter_shrinks:
  assumes f: "\<And>a b. b \<in> set (f a) \<Longrightarrow> length (rest b) \<le> length (rest a)"
  shows "st' \<in> set (star_iter f n st) \<Longrightarrow> length (rest st') \<le> length (rest st)"
proof (induction n arbitrary: st)
  case 0
  then show ?case by simp
next
  case (Suc n)
  then show ?case by (fastforce dest: f)
qed

lemma run_shrinks: "st' \<in> set (run r st) \<Longrightarrow> length (rest st') \<le> length (rest st)"
proof (induction r arbitrary: st st')
  case (Sym p)
  then show ?case by (auto simp: rest_def split: prod.splits list.splits if_splits)
next
  case Eps
  then show ?case by simp
next
  case Bnd
  then show ?case by (auto split: prod.splits if_splits)
next
  case (Seq a b)
  from Seq.prems obtain mid where "mid \<in> set (run a st)" "st' \<in> set (run b mid)"
    by auto
  then have "length (rest mid) \<le> length (rest st)" "length (rest st') \<le> length (rest mid)"
    using Seq.IH by blast+
  then show ?case by simp
next
  case (Alt a b)
  from Alt.prems have "st' \<in> set (run a st) \<or> st' \<in> set (run b st)"
    by simp
  then show ?case using Alt.IH by blast
next
  case (Star a)
  then show ?case using star_iter_shrinks [of "run a"] by auto
next
  case (Grp a)
  from Grp.prems obtain mid where "mid \<in> set (run a st)" "rest st' = rest mid"
    by (auto simp: rest_def)
  then show ?case using Grp.IH [of mid st] by simp
qed

lemma star_nonempty: "star_iter f n st \<noteq> []"
  by (cases n) simp_all

lemma total_Star: "total (Star r)"
  by (simp add: total_def star_nonempty)

lemma total_Opt: "total (Opt r)"
  by (simp add: total_def Opt_def)

lemma total_Eps: "total Eps"
  by (simp add: total_def)

lemma total_Seq: "total a \<Longrightarrow> total b \<Longrightarrow> total (Seq a b)"
  unfolding total_def
proof
  fix st
  assume a: "\<forall>st. run a st \<noteq> []" and b: "\<forall>st. run b st \<noteq> []"
  from a [THEN spec, of st] obtain x xs where "run a st = x # xs"
    by (cases "run a st") simp_all
  moreover from b [THEN spec, of x] obtain y ys where "run b x = y # ys"
    by (cases "run b x") simp_all
  ultimately show "run (Seq a b) st \<noteq> []" by simp
qed


lemma match_here_Some:
  "match_here r pv s = Some (m, g) \<Longrightarrow>
     \<exists>st. st \<in> set (run r (pv, s, None)) \<and> m = take (length s - length (rest st)) s"
  by (auto simp: match_here_def split: list.splits)

lemma match_here_None: "match_here r pv s = None \<longleftrightarrow> run r (pv, s, None) = []"
  by (simp add: match_here_def split: list.splits)

text \<open>
  A search reports the attempt at the leftmost offset that has a match, and fails only
  when no offset has one.
\<close>

lemma search_from_leftmost:
  "search_from r pv s = Some m \<Longrightarrow>
     \<exists>k\<le>length s. match_here r (if k = 0 then pv else Some (s ! (k - 1))) (drop k s) = Some m
        \<and> (\<forall>j<k. match_here r (if j = 0 then pv else Some (s ! (j - 1))) (drop j s) = None)"
proof (induction s arbitrary: pv)
  case Nil
  then show ?case by simp
next
  case (Cons x xs)
  show ?case
  proof (cases "match_here r pv (x # xs)")
    case None
    with Cons.prems have "search_from r (Some x) xs = Some m" by simp
    from Cons.IH [OF this] obtain k where k: "k \<le> length xs"
      "match_here r (if k = 0 then Some x else Some (xs ! (k - 1))) (drop k xs) = Some m"
      "\<forall>j<k. match_here r (if j = 0 then Some x else Some (xs ! (j - 1))) (drop j xs) = None"
      by blast
    have here: "match_here r (if Suc k = 0 then pv else Some ((x # xs) ! (Suc k - 1))) (drop (Suc k) (x # xs)) = Some m"
      using k(2) by (cases k) simp_all
    have "match_here r (if j = 0 then pv else Some ((x # xs) ! (j - 1))) (drop j (x # xs)) = None"
      if "j < Suc k" for j
    proof (cases j)
      case 0
      then show ?thesis using None by simp
    next
      case (Suc i)
      with that have "i < k" by simp
      with k(3) have "match_here r (if i = 0 then Some x else Some (xs ! (i - 1))) (drop i xs) = None"
        by blast
      then show ?thesis using Suc by (cases i) simp_all
    qed
    with here k(1) show ?thesis
      by (intro exI [of _ "Suc k"]) simp
  next
    case (Some a)
    with Cons.prems have "match_here r pv (x # xs) = Some m" by simp
    then show ?thesis by (intro exI [of _ 0]) simp
  qed
qed

lemma search_from_None:
  "search_from r pv s = None \<Longrightarrow> k \<le> length s \<Longrightarrow>
     match_here r (if k = 0 then pv else Some (s ! (k - 1))) (drop k s) = None"
proof (induction s arbitrary: pv k)
  case Nil
  then show ?case by simp
next
  case (Cons x xs)
  from Cons.prems(1) have here: "match_here r pv (x # xs) = None"
    and later: "search_from r (Some x) xs = None"
    by (auto split: option.splits)
  show ?case
  proof (cases k)
    case 0
    then show ?thesis using here by simp
  next
    case (Suc i)
    with Cons.prems(2) have "i \<le> length xs" by simp
    from Cons.IH [OF later this] show ?thesis using Suc by (cases i) simp_all
  qed
qed

lemma re_exec_leftmost:
  "re_exec r s = Some m \<Longrightarrow>
     \<exists>k\<le>length s. match_at r s k = Some m \<and> (\<forall>j<k. match_at r s j = None)"
  unfolding re_exec_def match_at_def by (rule search_from_leftmost)

lemma re_exec_None:
  "re_exec r s = None \<Longrightarrow> k \<le> length s \<Longrightarrow> match_at r s k = None"
  unfolding re_exec_def match_at_def by (rule search_from_None)

lemma search_Some:
  "search_from r pv s = Some (m, g) \<Longrightarrow>
     \<exists>pre suf pv' st. s = pre @ suf \<and> st \<in> set (run r (pv', suf, None))
        \<and> m = take (length suf - length (rest st)) suf"
proof -
  assume "search_from r pv s = Some (m, g)"
  from search_from_leftmost [OF this] obtain k where
    "match_here r (if k = 0 then pv else Some (s ! (k - 1))) (drop k s) = Some (m, g)"
    by blast
  from match_here_Some [OF this] obtain st where
    "st \<in> set (run r (if k = 0 then pv else Some (s ! (k - 1)), drop k s, None))"
    "m = take (length (drop k s) - length (rest st)) (drop k s)" by blast
  moreover have "s = take k s @ drop k s" by simp
  ultimately show ?thesis by blast
qed

lemma search_complete:
  "run r (if pre = [] then pv else Some (last pre), suf, None) \<noteq> [] \<Longrightarrow>
     search_from r pv (pre @ suf) \<noteq> None"
proof (induction pre arbitrary: pv)
  case Nil
  then show ?case by (cases suf) (auto simp: match_here_None split: option.splits)
next
  case (Cons a pre)
  have "run r (if pre = [] then Some a else Some (last pre), suf, None) \<noteq> []"
    using Cons.prems by (cases "pre = []") simp_all
  from Cons.IH [OF this] show ?case by (auto split: option.splits)
qed

text \<open>The definitions to unfold when a pattern is run on a given text.\<close>

lemmas re_eval = seqs_def alts_def chr_def lit_i_def ws_def digit_def Plus_def Opt_def
  re_exec_def re_test_def match_here_def match_at_def rest_def isWhiteSpace_def isDigit_def
  js_def upper_unit_def at_boundary_def isWordChar_def

lemmas float_eval = parseFloat_def isWhiteSpace_def isDigit_def digits_val_def exponent_of_def
  scale10_def Let_def

subsection \<open>The Incoterms detector\<close>

lemma lit3_run:
  "run (lit_i [k1, k2, k3]) (pv, s, cap) =
     (case s of
        c1 # c2 # c3 # cs \<Rightarrow>
          if upper_unit c1 = upper_unit k1 \<and> upper_unit c2 = upper_unit k2
             \<and> upper_unit c3 = upper_unit k3
          then [(Some c3, cs, cap)] else []
      | _ \<Rightarrow> [])"
  by (simp add: lit_i_def seqs_def split: list.splits)

lemma concat_singletons: "concat (map (\<lambda>x. [x]) xs) = xs"
  by (induction xs) simp_all

lemma run_Seq_Eps: "run (Seq a Eps) st = run a st"
proof -
  have "map (run Eps) (run a st) = map (\<lambda>x. [x]) (run a st)" by simp
  then show ?thesis by (simp only: run.simps concat_singletons)
qed

lemma seqs4: "seqs [a, b, c, d] = Seq a (Seq b (Seq c (Seq d Eps)))"
  by (simp add: seqs_def)

lemma location_total: "run locationRe st \<noteq> []"
proof -
  have "total (Seq (Star ws) (Seq (Opt a) (Seq (Star ws) (Seq (Opt b) Eps))))" for a b
    by (intro total_Seq total_Star total_Opt total_Eps)
  then have "run (Seq (Star ws) (Seq (Opt a) (Seq (Star ws) (Seq (Opt b) Eps)))) st \<noteq> []" for a b
    unfolding total_def by (rule spec)
  then show ?thesis unfolding locationRe_def seqs4 .
qed

lemma incotermRe_run:
  "run (incotermRe code) st =
     (if at_boundary (fst st) (rest st)
      then concat (map (run locationRe) (run (lit_i code) st)) else [])"
proof -
  have "incotermRe code = Seq Bnd (Seq (lit_i code) (Seq locationRe Eps))"
    by (simp add: incotermRe_def seqs_def)
  moreover have "run (Seq locationRe Eps) = run locationRe"
    by (rule ext) (rule run_Seq_Eps)
  ultimately show ?thesis
    by (cases st) (simp add: rest_def)
qed

lemma incoterm_run_nonempty:
  assumes "at_boundary pv (c1 # c2 # c3 # cs)"
    and "upper_unit c1 = upper_unit k1" "upper_unit c2 = upper_unit k2" "upper_unit c3 = upper_unit k3"
  shows "run (incotermRe [k1, k2, k3]) (pv, c1 # c2 # c3 # cs, cap) \<noteq> []"
  using assms by (simp add: incotermRe_run lit3_run rest_def location_total)

lemma incoterm_run_results:
  assumes "st' \<in> set (run (incotermRe [k1, k2, k3]) (pv, s, cap))"
  shows "\<exists>c1 c2 c3 cs. s = c1 # c2 # c3 # cs \<and> upper_unit c1 = upper_unit k1
           \<and> upper_unit c2 = upper_unit k2 \<and> upper_unit c3 = upper_unit k3
           \<and> length (rest st') \<le> length cs"
proof -
  from assms obtain mid where mid: "mid \<in> set (run (lit_i [k1, k2, k3]) (pv, s, cap))"
    and st': "st' \<in> set (run locationRe mid)"
    by (auto simp: incotermRe_run split: if_splits)
  from mid obtain c1 c2 c3 cs where s: "s = c1 # c2 # c3 # cs"
    and u: "upper_unit c1 = upper_unit k1" "upper_unit c2 = upper_unit k2" "upper_unit c3 = upper_unit k3"
    and m: "mid = (Some c3, cs, cap)"
    by (auto simp: lit3_run split: list.splits if_splits)
  from run_shrinks [OF st'] m have "length (rest st') \<le> length cs"
    by (simp add: rest_def)
  with s u show ?thesis by blast
qed

lemma js_DDP: "js ''DDP'' = [68, 68, 80]"
  by (simp add: js_def)

lemma ddp_found:
  assumes "U = pre @ js ''DDP'' @ post" and "pre = [] \<or> \<not> isWordChar (last pre)"
  shows "re_test (incotermRe (js ''DDP'')) U"
proof -
  have "at_boundary (if pre = [] then None else Some (last pre)) (68 # 68 # 80 # post)"
    using assms(2) by (auto simp: at_boundary_def isWordChar_def)
  then have "run (incotermRe [68, 68, 80]) (if pre = [] then None else Some (last pre), 68 # 68 # 80 # post, None) \<noteq> []"
    by (rule incoterm_run_nonempty) simp_all
  then have "search_from (incotermRe [68, 68, 80]) None (pre @ 68 # 68 # 80 # post) \<noteq> None"
    by (rule search_complete)
  then show ?thesis using assms(1) by (simp add: re_test_def re_exec_def js_DDP)
qed

lemma upper_unit_fixed: "\<not> (97 \<le> c \<and> c \<le> 122) \<Longrightarrow> upper_unit c = c"
  by (auto simp: upper_unit_def)

lemma ddp_match_text:
  assumes "re_exec (incotermRe (js ''DDP'')) U = Some (m, g)"
    and "list_all (\<lambda>c. \<not> (97 \<le> c \<and> c \<le> 122)) U"
  shows "\<exists>cs. m = 68 # 68 # 80 # cs"
proof -
  from assms(1) have "search_from (incotermRe [68, 68, 80]) None U = Some (m, g)"
    by (simp add: re_exec_def js_DDP)
  from search_Some [OF this] obtain pre suf pv' st where
    U: "U = pre @ suf" and st: "st \<in> set (run (incotermRe [68, 68, 80]) (pv', suf, None))"
    and m: "m = take (length suf - length (rest st)) suf" by blast
  from incoterm_run_results [OF st] obtain c1 c2 c3 cs where
    suf: "suf = c1 # c2 # c3 # cs"
    and u: "upper_unit c1 = upper_unit 68" "upper_unit c2 = upper_unit 68" "upper_unit c3 = upper_unit 80"
    and len: "length (rest st) \<le> length cs" by blast
  from assms(2) U suf have "\<not> (97 \<le> c1 \<and> c1 \<le> 122)" "\<not> (97 \<le> c2 \<and> c2 \<le> 122)"
    "\<not> (97 \<le> c3 \<and> c3 \<le> 122)"
    by (simp_all add: list_all_iff)
  with u have c: "c1 = 68" "c2 = 68" "c3 = 80"
    by (simp_all add: upper_unit_fixed)
  from len have "length suf - length (rest st) = Suc (Suc (Suc (length cs - length (rest st))))"
    by (simp add: suf)
  with m suf c show ?thesis by simp
qed

lemma dropWhile_keeps_end:
  "\<not> P y \<Longrightarrow> \<exists>zs. dropWhile P (xs @ y # ys) = zs @ y # ys"
  by (induction xs) auto

lemma trim_keeps_code:
  assumes "\<not> isWhiteSpace a" "\<not> isWhiteSpace c"
  shows "\<exists>ys. trim (a # b # c # xs) = a # b # c # ys"
proof -
  have "dropWhile isWhiteSpace (a # b # c # xs) = a # b # c # xs"
    using assms(1) by simp
  moreover have "rev (a # b # c # xs) = rev xs @ c # [b, a]" by simp
  moreover obtain zs where "dropWhile isWhiteSpace (rev xs @ c # [b, a]) = zs @ c # [b, a]"
    using dropWhile_keeps_end [of isWhiteSpace c "rev xs" "[b, a]"] assms(2) by blast
  ultimately have "trim (a # b # c # xs) = rev (zs @ c # [b, a])"
    by (simp add: trim_def)
  then show ?thesis by simp
qed

lemma trim_DDP: "\<exists>ys. trim (68 # 68 # 80 # xs) = 68 # 68 # 80 # ys"
  by (rule trim_keeps_code) (simp_all add: isWhiteSpace_def)

lemma includes_DDP: "str_includes (68 # 68 # 80 # ys) (js ''DDP'')"
  by (simp add: js_DDP)

lemma critical_incoterm_flags:
  "filter (\<lambda>f. level f = Critical) (incoterm_flags U e) =
     (if snd e = Critical then incoterm_flags U e else [])"
  by (simp add: incoterm_flags_def split: option.splits)

lemma critical_code_flags:
  "filter (\<lambda>f. level f = Critical) (concat (map (incoterm_flags U) INCOTERMS_DATA))
     = incoterm_flags U (js ''DDP'', Critical)"
  by (simp add: filter_concat o_def critical_incoterm_flags INCOTERMS_DATA_def)

lemma ddp_in_code_flags:
  "set (incoterm_flags U (js ''DDP'', Critical)) \<subseteq> set (concat (map (incoterm_flags U) INCOTERMS_DATA))"
  by (auto simp: INCOTERMS_DATA_def)

lemma reach_Seq:
  "st1 \<in> set (run a st) \<Longrightarrow> st2 \<in> set (run b st1) \<Longrightarrow> st2 \<in> set (run (Seq a b) st)"
  by auto

lemma reach_Star_stop: "st \<in> set (run (Star r) st)"
  by (cases "length (rest st)") simp_all

lemma reach_Plus:
  "st1 \<in> set (run r st) \<Longrightarrow> st1 \<in> set (run (Plus r) st)"
  unfolding Plus_def by (rule reach_Seq [OF _ reach_Star_stop])

lemma seqs_Cons: "seqs (r # rs) = Seq r (seqs rs)"
  by (simp add: seqs_def)

lemma seqs_Nil: "seqs [] = Eps"
  by (simp add: seqs_def)

lemma lit_i_reach:
  "length w = length k \<Longrightarrow> map upper_unit w = map upper_unit k \<Longrightarrow> w \<noteq> [] \<Longrightarrow>
     (Some (last w), post, cap) \<in> set (run (lit_i k) (pv, w @ post, cap))"
proof (induction w arbitrary: k pv)
  case Nil
  then show ?case by simp
next
  case (Cons c w)
  then obtain k0 ks where k: "k = k0 # ks" by (cases k) auto
  with Cons.prems have c: "upper_unit c = upper_unit k0" and ws: "map upper_unit w = map upper_unit ks"
    and len: "length w = length ks" by auto
  have step: "run (Sym (\<lambda>x. upper_unit x = upper_unit k0)) (pv, (c # w) @ post, cap) = [(Some c, w @ post, cap)]"
    using c by simp
  show ?case
  proof (cases "w = []")
    case True
    with len have "ks = []" by simp
    with True step k show ?thesis by (simp add: lit_i_def seqs_def)
  next
    case False
    from Cons.IH [OF len ws False]
    have "(Some (last w), post, cap) \<in> set (run (lit_i ks) (Some c, w @ post, cap))" .
    then have "(Some (last w), post, cap) \<in> set (run (Seq (Sym (\<lambda>x. upper_unit x = upper_unit k0)) (lit_i ks)) (pv, (c # w) @ post, cap))"
      using step by simp
    moreover have "lit_i (k0 # ks) = Seq (Sym (\<lambda>x. upper_unit x = upper_unit k0)) (lit_i ks)"
      by (simp add: lit_i_def seqs_def)
    ultimately show ?thesis using k False by simp
  qed
qed

lemma upper_unit_space: "upper_unit c = 32 \<Longrightarrow> c = 32"
  by (auto simp: upper_unit_def split: if_splits)

text \<open>
  The phrase pattern matches in every text that holds the three words, in any case,
  with single blanks between them.
\<close>

lemma ddp_phrase_found:
  assumes w: "map upper_unit w = js ''DELIVERED DUTY PAID''"
  shows "re_test ddpPhraseRe (pre @ w @ post)"
proof -
  from w obtain c1 c2 c3 c4 c5 c6 c7 c8 c9 b1 d1 d2 d3 d4 b2 e1 e2 e3 e4 where
    ws: "w = [c1, c2, c3, c4, c5, c6, c7, c8, c9, b1, d1, d2, d3, d4, b2, e1, e2, e3, e4]"
    by (auto simp: js_def map_eq_Cons_conv)
  define w1 where "w1 = [c1, c2, c3, c4, c5, c6, c7, c8, c9]"
  define w2 where "w2 = [d1, d2, d3, d4]"
  define w3 where "w3 = [e1, e2, e3, e4]"
  have split: "w = w1 @ b1 # w2 @ b2 # w3"
    by (simp add: ws w1_def w2_def w3_def)
  have u1: "map upper_unit w1 = map upper_unit (js ''delivered'')"
    using w by (simp add: ws w1_def js_def upper_unit_def)
  have u2: "map upper_unit w2 = map upper_unit (js ''duty'')"
    using w by (simp add: ws w2_def js_def upper_unit_def)
  have u3: "map upper_unit w3 = map upper_unit (js ''paid'')"
    using w by (simp add: ws w3_def js_def upper_unit_def)
  have l1: "length w1 = length (js ''delivered'')" "w1 \<noteq> []"
    by (simp_all add: w1_def js_def)
  have l2: "length w2 = length (js ''duty'')" "w2 \<noteq> []"
    by (simp_all add: w2_def js_def)
  have l3: "length w3 = length (js ''paid'')" "w3 \<noteq> []"
    by (simp_all add: w3_def js_def)
  have "upper_unit b1 = 32" "upper_unit b2 = 32"
    using w by (simp_all add: ws js_def)
  then have b: "b1 = 32" "b2 = 32" by (auto dest: upper_unit_space)
  define pv where "pv = (if pre = [] then None else Some (last pre))"
  have r1: "(Some (last w1), b1 # w2 @ b2 # w3 @ post, None)
              \<in> set (run (lit_i (js ''delivered'')) (pv, w1 @ b1 # w2 @ b2 # w3 @ post, None))"
    by (rule lit_i_reach [OF l1(1) u1 l1(2)])
  have r2: "(Some b1, w2 @ b2 # w3 @ post, None)
              \<in> set (run (Plus ws) (Some (last w1), b1 # w2 @ b2 # w3 @ post, None))"
    by (rule reach_Plus) (simp add: ws_def b isWhiteSpace_def)
  have r3: "(Some (last w2), b2 # w3 @ post, None)
              \<in> set (run (lit_i (js ''duty'')) (Some b1, w2 @ b2 # w3 @ post, None))"
    by (rule lit_i_reach [OF l2(1) u2 l2(2)])
  have r4: "(Some b2, w3 @ post, None)
              \<in> set (run (Plus ws) (Some (last w2), b2 # w3 @ post, None))"
    by (rule reach_Plus) (simp add: ws_def b isWhiteSpace_def)
  have r5: "(Some (last w3), post, None)
              \<in> set (run (lit_i (js ''paid'')) (Some b2, w3 @ post, None))"
    by (rule lit_i_reach [OF l3(1) u3 l3(2)])
  have r6: "(Some (last w3), post, None) \<in> set (run (seqs []) (Some (last w3), post, None))"
    by (simp add: seqs_Nil)
  have "(Some (last w3), post, None)
          \<in> set (run ddpPhraseRe (pv, w1 @ b1 # w2 @ b2 # w3 @ post, None))"
    unfolding ddpPhraseRe_def seqs_Cons
    by (rule reach_Seq [OF r1 reach_Seq [OF r2 reach_Seq [OF r3 reach_Seq [OF r4 reach_Seq [OF r5 r6]]]]])
  then have "run ddpPhraseRe (pv, w @ post, None) \<noteq> []"
    using split by auto
  then have "search_from ddpPhraseRe None (pre @ w @ post) \<noteq> None"
    unfolding pv_def by (rule search_complete)
  then show ?thesis by (simp add: re_test_def re_exec_def)
qed

lemma code_flag_title:
  "f \<in> set (concat (map (incoterm_flags U) INCOTERMS_DATA)) \<Longrightarrow> hd (title f) = 73"
proof -
  assume "f \<in> set (concat (map (incoterm_flags U) INCOTERMS_DATA))"
  then obtain e where "f \<in> set (incoterm_flags U e)" by auto
  then show ?thesis
    by (auto simp: incoterm_flags_def js_def split: option.splits)
qed

lemma phrase_flag_is_no_code_flag:
  "ddp_phrase_flag \<notin> set (concat (map (incoterm_flags U) INCOTERMS_DATA))"
proof
  assume "ddp_phrase_flag \<in> set (concat (map (incoterm_flags U) INCOTERMS_DATA))"
  then have "hd (title ddp_phrase_flag) = 73" by (rule code_flag_title)
  then show False by (simp add: ddp_phrase_flag_def js_def)
qed

text \<open>
  Claim C6. For a text in which the phrase pattern \<open>delivered duty paid\<close> matches
  (any case, white space between the words), the findings are those for the literal
  codes, followed by the implied-DDP finding, which is critical, exactly when none of
  the findings for literal codes has an extracted value containing \<open>DDP\<close>. In
  particular, when the upper-cased text, which has no small ASCII letter, holds the
  code \<open>DDP\<close> at the start of a word, the detector emits exactly one critical finding:
  the one for the code, and not the implied one as well.
\<close>

theorem ddp_phrase_not_double_counted:
  assumes "re_test ddpPhraseRe text"
  shows "detectIncoterms h text =
           concat (map (incoterm_flags (toUpperCase h text)) INCOTERMS_DATA)
           @ (if list_ex mentions_DDP (concat (map (incoterm_flags (toUpperCase h text)) INCOTERMS_DATA))
              then [] else [ddp_phrase_flag])
         \<and> (ddp_phrase_flag \<in> set (detectIncoterms h text))
             = (\<not> list_ex mentions_DDP (concat (map (incoterm_flags (toUpperCase h text)) INCOTERMS_DATA)))
         \<and> level ddp_phrase_flag = Critical
         \<and> (list_all (\<lambda>c. \<not> (97 \<le> c \<and> c \<le> 122)) (toUpperCase h text)
              \<and> toUpperCase h text = pre @ js ''DDP'' @ post
              \<and> (pre = [] \<or> \<not> isWordChar (last pre))
            \<longrightarrow> length (filter (\<lambda>f. level f = Critical) (detectIncoterms h text)) = 1)"
proof (intro conjI impI)
  let ?U = "toUpperCase h text"
  let ?flags = "concat (map (incoterm_flags ?U) INCOTERMS_DATA)"
  show first: "detectIncoterms h text =
           ?flags @ (if list_ex mentions_DDP ?flags then [] else [ddp_phrase_flag])"
    using assms by (simp add: detectIncoterms_def Let_def)
  show "(ddp_phrase_flag \<in> set (detectIncoterms h text)) = (\<not> list_ex mentions_DDP ?flags)"
    using first phrase_flag_is_no_code_flag [of ?U] by (cases "list_ex mentions_DDP ?flags") simp_all
  show "level ddp_phrase_flag = Critical"
    by (simp add: ddp_phrase_flag_def)
  assume hyp: "list_all (\<lambda>c. \<not> (97 \<le> c \<and> c \<le> 122)) ?U
              \<and> ?U = pre @ js ''DDP'' @ post
              \<and> (pre = [] \<or> \<not> isWordChar (last pre))"
  then have "re_test (incotermRe (js ''DDP'')) ?U"
    using ddp_found by blast
  then obtain m g where mg: "re_exec (incotermRe (js ''DDP'')) ?U = Some (m, g)"
    by (auto simp: re_test_def)
  with hyp obtain cs where "m = 68 # 68 # 80 # cs"
    using ddp_match_text by blast
  then obtain ys where ys: "trim m = 68 # 68 # 80 # ys"
    using trim_DDP by blast
  define f where "f = \<lparr> rtype = Incoterms, level = Critical,
                      title = js ''Incoterm Detected: '' @ js ''DDP'', affectedRows = None,
                      extractedValue = Some (trim m) \<rparr>"
  have fl: "incoterm_flags ?U (js ''DDP'', Critical) = [f]"
    using mg by (simp add: incoterm_flags_def f_def)
  have "mentions_DDP f"
    using ys includes_DDP by (simp add: mentions_DDP_def f_def)
  moreover have "f \<in> set ?flags"
    using ddp_in_code_flags [of ?U] fl by simp
  ultimately have "list_ex mentions_DDP ?flags"
    by (auto simp: list_ex_iff)
  with first have "detectIncoterms h text = ?flags" by simp
  then show "length (filter (\<lambda>f. level f = Critical) (detectIncoterms h text)) = 1"
    by (simp only: critical_code_flags fl) simp
qed

lemma ddp_text_phrase: "re_test ddpPhraseRe ddp_text"
  by (simp add: ddp_text_def ddpPhraseRe_def re_eval)

lemma ddp_text_upper: "toUpperCase ascii_host ddp_text = [] @ js ''DDP'' @ js '' DELIVERED DUTY PAID''"
  by (simp add: ddp_text_def ascii_host_def js_def upper_unit_def)

lemma ddp_text_no_small:
  "list_all (\<lambda>c. \<not> (97 \<le> c \<and> c \<le> 122)) (toUpperCase ascii_host ddp_text)"
  by (simp add: ddp_text_def ascii_host_def js_def upper_unit_def)

text \<open>\<open>DDP Delivered Duty Paid\<close>: one critical finding, the one for the code.\<close>

theorem ddp_phrase_witness:
  "re_test ddpPhraseRe ddp_text
   \<and> list_all (\<lambda>c. \<not> (97 \<le> c \<and> c \<le> 122)) (toUpperCase ascii_host ddp_text)
   \<and> toUpperCase ascii_host ddp_text = [] @ js ''DDP'' @ js '' DELIVERED DUTY PAID''
   \<and> length (filter (\<lambda>f. level f = Critical) (detectIncoterms ascii_host ddp_text)) = 1"
proof -
  have "length (filter (\<lambda>f. level f = Critical) (detectIncoterms ascii_host ddp_text)) = 1"
    using ddp_phrase_not_double_counted
            [OF ddp_text_phrase, of ascii_host "[]" "js '' DELIVERED DUTY PAID''"]
      ddp_text_upper ddp_text_no_small
    by blast
  then show ?thesis
    using ddp_text_phrase ddp_text_upper ddp_text_no_small by blast
qed

text \<open>The findings for three texts, computed.\<close>

lemma ddp_text_flags:
  "detectIncoterms ascii_host ddp_text =
     [\<lparr> rtype = Incoterms, level = Critical, title = js ''Incoterm Detected: DDP'',
        affectedRows = None, extractedValue = Some (js ''DDP DELIVERED DUTY PAID'') \<rparr>]"
  by (simp add: detectIncoterms_def Let_def incoterm_flags_def INCOTERMS_DATA_def incotermRe_def
      locationRe_def ddpPhraseRe_def ddp_text_def ascii_host_def mentions_DDP_def trim_def re_eval)

lemma fob_flags:
  "detectIncoterms ascii_host (js ''FOB Shanghai'') =
     [\<lparr> rtype = Incoterms, level = Medium, title = js ''Incoterm Detected: FOB'',
        affectedRows = None, extractedValue = Some (js ''FOB SHANGHAI'') \<rparr>]"
  by (simp add: detectIncoterms_def Let_def incoterm_flags_def INCOTERMS_DATA_def incotermRe_def
      locationRe_def ddpPhraseRe_def ascii_host_def mentions_DDP_def trim_def re_eval)

lemma implied_ddp_flags:
  "detectIncoterms ascii_host (js ''delivered  duty paid'') = [ddp_phrase_flag]"
  by (simp add: detectIncoterms_def Let_def incoterm_flags_def INCOTERMS_DATA_def incotermRe_def
      locationRe_def ddpPhraseRe_def ascii_host_def mentions_DDP_def trim_def re_eval)

subsection \<open>The liquidated-damages detector\<close>

lemma ld_loop_single:
  "list_ex (\<lambda>p. re_test p text) ps \<Longrightarrow> \<exists>m0. ld_loop h text ps = [ld_flag h text m0]"
  by (induction ps) (auto simp: re_test_def split: option.splits)

lemma ld_loop_none:
  "\<not> list_ex (\<lambda>p. re_test p text) ps \<Longrightarrow> ld_loop h text ps = []"
  by (induction ps) (auto simp: re_test_def split: option.splits)

text \<open>
  Claim C4, as amended. When at least one of the six patterns matches, the detector
  emits exactly one finding, of type liquidated damages. Its level comes from the first
  match in the text of the percentage pattern (a number and a percent sign; the words
  per/each and day/week/month after it are optional): critical from 1 on, high from 0.5
  on, medium below, and high when the pattern has no match. When the cap pattern has a
  match, the number of its first match is appended to the title, and when that number
  exceeds 10 the level is critical whatever the percentage. Later matches of either
  pattern have no effect. (By \<open>re_exec_leftmost\<close> the first match is the one at the
  leftmost offset.)
\<close>

theorem ld_one_finding_first_matches:
  assumes "list_ex (\<lambda>p. re_test p text) ldPatterns"
  shows "\<exists>ev. detectLiquidatedDamages h text =
           [\<lparr> rtype = LiquidatedDamages,
              level = (if (\<exists>m. re_exec capRe text = Some m
                              \<and> num_gt (parseFloat (group_text (snd m))) (Fin 10))
                       then Critical
                       else (case re_exec percentRe text of
                               None \<Rightarrow> High
                             | Some m \<Rightarrow>
                                 if num_ge (parseFloat (group_text (snd m))) (Fin 1) then Critical
                                 else if num_ge (parseFloat (group_text (snd m))) (Fin (1 / 2)) then High
                                 else Medium)),
              title = js ''Liquidated Damages Clause Detected''
                      @ (case re_exec capRe text of
                           None \<Rightarrow> []
                         | Some m \<Rightarrow> js '' (Capped at ''
                                     @ numToString h (parseFloat (group_text (snd m))) @ js ''%)''),
              affectedRows = None, extractedValue = Some ev \<rparr>]"
proof -
  from assms obtain m0 where "ld_loop h text ldPatterns = [ld_flag h text m0]"
    using ld_loop_single by blast
  then show ?thesis
    by (auto simp: detectLiquidatedDamages_def ld_flag_def percent_level_def Let_def
        split: option.splits)
qed

text \<open>
  A text with two percentages and two caps. The first percentage is 0.1 and the first
  cap is 5; at offset 42 stands \<open>2% per week\<close> and at offset 54 \<open>not to exceed 20%\<close>.
\<close>

lemma ld_text_percent: "re_exec percentRe ld_text = Some (js ''0.1% per day'', Some (js ''0.1''))"
  by (simp add: ld_text_def percentRe_def re_eval)

lemma ld_text_cap: "re_exec capRe ld_text = Some (js ''up to 5%'', Some (js ''5''))"
  by (simp add: ld_text_def capRe_def re_eval)

lemma ld_text_first: "re_exec (hd ldPatterns) ld_text = Some (js ''liquidated damages'', None)"
  by (simp add: ld_text_def ldPatterns_def re_eval)

lemma ld_text_later_percent: "match_at percentRe ld_text 42 = Some (js ''2% per week'', Some (js ''2''))"
  by (simp add: ld_text_def percentRe_def re_eval)

lemma ld_text_later_cap: "match_at capRe ld_text 54 = Some (js ''not to exceed 20%'', Some (js ''20''))"
  by (simp add: ld_text_def capRe_def re_eval)

lemma pf_01: "parseFloat (js ''0.1'') = Fin (1 / 10)"
  by (simp add: float_eval js_def)

lemma pf_5: "parseFloat (js ''5'') = Fin 5"
  by (simp add: float_eval js_def)

lemma pf_2: "parseFloat (js ''2'') = Fin 2"
  by (simp add: float_eval js_def)

lemma pf_20: "parseFloat (js ''20'') = Fin 20"
  by (simp add: float_eval js_def)

lemma str_5: "numToString ascii_host (Fin 5) = js ''5''"
  by (simp add: ascii_host_def nat_str_def js_def eval_nat_numeral)

text \<open>
  The claim as stated fails on that text: a percentage per time unit of at least 1
  (2% per week) and a cap above 10 (20%) both occur in it, yet the level is medium and
  the title names the cap 5.
\<close>

theorem ld_later_percentage_and_cap_ignored:
  "detectLiquidatedDamages ascii_host ld_text =
     [\<lparr> rtype = LiquidatedDamages, level = Medium,
        title = js ''Liquidated Damages Clause Detected (Capped at 5%)'',
        affectedRows = None, extractedValue = Some (js ''0.1% per day'') \<rparr>]
   \<and> map_option (\<lambda>m. parseFloat (group_text (snd m))) (match_at percentRe ld_text 42) = Some (Fin 2)
   \<and> fst (the (match_at percentRe ld_text 42)) = js ''2% per week''
   \<and> map_option (\<lambda>m. parseFloat (group_text (snd m))) (match_at capRe ld_text 54) = Some (Fin 20)
   \<and> fst (the (match_at capRe ld_text 54)) = js ''not to exceed 20%''"
proof -
  have "ld_loop ascii_host ld_text ldPatterns = [ld_flag ascii_host ld_text (js ''liquidated damages'')]"
    using ld_text_first by (simp add: ldPatterns_def)
  then show ?thesis
    by (simp add: detectLiquidatedDamages_def ld_flag_def percent_level_def Let_def
        ld_text_percent ld_text_cap ld_text_later_percent ld_text_later_cap
        pf_01 pf_5 pf_2 pf_20 str_5 num_ge_def num_gt_def)
       (simp add: js_def)
qed

lemma ld_text2_hyp: "list_ex (\<lambda>p. re_test p ld_text2) ldPatterns"
  by (simp add: ld_text2_def ldPatterns_def re_eval)

lemma ld_text2_percent: "re_exec percentRe ld_text2 = Some (js ''2% per day'', Some (js ''2''))"
  by (simp add: ld_text2_def percentRe_def re_eval)

lemma ld_text2_cap: "re_exec capRe ld_text2 = None"
  by (simp add: ld_text2_def capRe_def re_eval)

text \<open>\<open>liquidated damages 2% per day\<close>: one finding, critical, no cap.\<close>

theorem ld_one_finding_witness:
  "list_ex (\<lambda>p. re_test p ld_text2) ldPatterns
   \<and> (\<exists>ev. detectLiquidatedDamages ascii_host ld_text2 =
         [\<lparr> rtype = LiquidatedDamages, level = Critical,
            title = js ''Liquidated Damages Clause Detected'',
            affectedRows = None, extractedValue = Some ev \<rparr>])"
  using ld_one_finding_first_matches [OF ld_text2_hyp, of ascii_host] ld_text2_hyp
  by (simp add: ld_text2_percent ld_text2_cap pf_2 num_ge_def)

end
